theory Spec2Isabelle
  imports Main
begin

section \<open>The HIL reservation prolog of the Slurm control daemon\<close>

text \<open>
  A shallow embedding of \<^verbatim>\<open>src/prolog/hil_slurmctld_prolog.py\<close> (Python 2).
  Exceptions are values of \<open>py_error\<close>; the log file and the commands sent to the
  resource manager are an explicit state that every function returns updated, also
  when it raises.

  The functions are modelled one by one, as they are written. As a whole the file
  does not load: the \<^verbatim>\<open>return\<close> statement of \<^verbatim>\<open>_modify_hil_reservation\<close>
  (line 230) ends with a colon. That function is called nowhere and has no model
  here.
\<close>

subsection \<open>Python values: exceptions, strings, dictionaries\<close>

text \<open>
  The exceptions that the code can raise. \<open>NotModelled\<close> is not one of them: it
  marks a format string outside the part of the date library that is modelled below,
  for which the model states no result.
\<close>

datatype py_error =
  KeyError | TypeError | ValueError | NameError | AttributeError
  | UnboundLocalError | OverflowError | NotModelled

text \<open>\<^verbatim>\<open>s.startswith(p)\<close> and \<^verbatim>\<open>sub in s\<close> on strings.\<close>

definition startswith :: "string \<Rightarrow> string \<Rightarrow> bool" where
  "startswith s p = (take (length p) s = p)"

fun contains :: "string \<Rightarrow> string \<Rightarrow> bool" where
  "contains [] sub = (sub = [])"
| "contains (c # cs) sub = (startswith (c # cs) sub \<or> contains cs sub)"

text \<open>\<^verbatim>\<open>s.split(sep)\<close> for a separator of one character: never an empty list.\<close>

fun split_chr :: "char \<Rightarrow> string \<Rightarrow> string list" where
  "split_chr sep [] = [[]]"
| "split_chr sep (c # cs) =
     (if c = sep then [] # split_chr sep cs
      else (case split_chr sep cs of
              [] \<Rightarrow> [[c]]
            | w # ws \<Rightarrow> (c # w) # ws))"

text \<open>
  The records that \<^verbatim>\<open>scontrol show\<close> yields are dictionaries from field names to
  strings; \<^verbatim>\<open>d[k]\<close> raises \<open>KeyError\<close> on a missing key.
\<close>

type_synonym dict = "string \<rightharpoonup> string"

definition getitem :: "dict \<Rightarrow> string \<Rightarrow> py_error + string" where
  "getitem d k = (case d k of None \<Rightarrow> Inl KeyError | Some v \<Rightarrow> Inr v)"

text \<open>
  \<^verbatim>\<open>_get_prolog_environment\<close> fills every entry with \<^verbatim>\<open>os.environ.get\<close>, which is
  \<^verbatim>\<open>None\<close> for a variable that is not set.
\<close>

record env_dict =
  jobname :: "string option"
  partition :: "string option"
  username :: "string option"
  job_id :: "string option"
  job_uid :: "string option"
  job_account :: "string option"
  nodelist :: "string option"

text \<open>\<^verbatim>\<open>'%s' % v\<close> prints \<^verbatim>\<open>None\<close> as the word itself.\<close>

definition fmt_s :: "string option \<Rightarrow> string" where
  "fmt_s v = (case v of None \<Rightarrow> ''None'' | Some s \<Rightarrow> s)"

subsection \<open>Settings and constants\<close>

text \<open>
  The modules \<^verbatim>\<open>hil_slurm_settings\<close> and \<^verbatim>\<open>hil_slurm_constants\<close> are not part of
  the sources at hand: the names imported from them are the fields of a parameter.
\<close>

record config =
  HIL_PARTITION_PREFIX :: string
  RES_CHECK_DEFAULT_PARTITION :: bool
  RES_CHECK_EXCLUSIVE_PARTITION :: bool
  RES_CHECK_SHARED_PARTITION :: bool
  RES_CHECK_PARTITION_STATE :: bool
  HIL_RESERVATION_DEFAULT_DURATION :: int
  HIL_RESERVATION_GRACE_PERIOD :: int
  SHOW_OBJ_TIME_FMT :: string
  RES_CREATE_TIME_FMT :: string
  SHOW_PARTITION_MAXTIME_HMS_FMT :: string
  RES_CREATE_HIL_FEATURES :: string
  RES_CREATE_FLAGS :: string
  HIL_RESERVE :: string
  HIL_RELEASE :: string
  HIL_RESERVATION_PREFIX :: string

subsection \<open>The hook's effects: log lines and manager commands\<close>

datatype level = DEBUG | INFO | ERROR

datatype call =
  ShowReservation string
  | CreateReservation string "string option" string string string string
  | DeleteReservation string

record hook_state =
  logged :: "(level \<times> string) list"
  calls :: "call list"

definition log_debug :: "string \<Rightarrow> hook_state \<Rightarrow> hook_state" where
  "log_debug msg s = s\<lparr>logged := logged s @ [(DEBUG, msg)]\<rparr>"

definition log_info :: "string \<Rightarrow> hook_state \<Rightarrow> hook_state" where
  "log_info msg s = s\<lparr>logged := logged s @ [(INFO, msg)]\<rparr>"

definition log_error :: "string \<Rightarrow> hook_state \<Rightarrow> hook_state" where
  "log_error msg s = s\<lparr>logged := logged s @ [(ERROR, msg)]\<rparr>"

subsection \<open>Partition validation\<close>

text \<open>The five messages of \<^verbatim>\<open>_check_hil_partition\<close>, each naming one attribute.\<close>

definition msg_name :: "string \<Rightarrow> string \<Rightarrow> string" where
  "msg_name pname pfx = ''Partition name `'' @ pname @ ''` does not match `'' @ pfx @ ''*`''"

definition msg_state :: "string \<Rightarrow> string \<Rightarrow> string" where
  "msg_state pname v = ''Partition `'' @ pname @ ''` state (`'' @ v @ ''`) is not UP''"

definition msg_default :: "string \<Rightarrow> string" where
  "msg_default pname =
     ''Partition `'' @ pname @ ''` is the default partition, cannot be used for HIL''"

definition msg_shared :: "string \<Rightarrow> string" where
  "msg_shared pname = ''Partition `'' @ pname @ ''` is shared, cannot be used for HIL''"

definition msg_exclusive :: "string \<Rightarrow> string option \<Rightarrow> string" where
  "msg_exclusive pname user =
     ''Partition `'' @ pname @ ''` not exclusive to `'' @ fmt_s user
       @ ''`, cannot be used for HIL''"

text \<open>
  \<^verbatim>\<open>_check_hil_partition\<close>: the name check is unconditional, the other four are
  guarded by their settings, and a field is read only when its check is enabled.
  The checks are the steps below, in the order of the source; each takes the running
  \<^verbatim>\<open>status\<close> and the state. A missing field raises \<open>KeyError\<close> and leaves the
  lines that are already logged.
\<close>

definition check_name ::
  "config \<Rightarrow> string \<Rightarrow> bool \<Rightarrow> hook_state \<Rightarrow> bool \<times> hook_state" where
  "check_name cfg pname status s =
     (if \<not> startswith pname (HIL_PARTITION_PREFIX cfg)
      then (False, log_info (msg_name pname (HIL_PARTITION_PREFIX cfg)) s)
      else (status, s))"

definition check_state ::
  "config \<Rightarrow> dict \<Rightarrow> string \<Rightarrow> bool \<Rightarrow> hook_state \<Rightarrow> (py_error + bool) \<times> hook_state" where
  "check_state cfg pdata_dict pname status s =
     (if RES_CHECK_PARTITION_STATE cfg then
        (case getitem pdata_dict ''State'' of
           Inl e \<Rightarrow> (Inl e, s)
         | Inr v \<Rightarrow>
             if v \<noteq> ''UP'' then (Inr False, log_info (msg_state pname v) s)
             else (Inr status, s))
      else (Inr status, s))"

definition check_default ::
  "config \<Rightarrow> dict \<Rightarrow> string \<Rightarrow> bool \<Rightarrow> hook_state \<Rightarrow> (py_error + bool) \<times> hook_state" where
  "check_default cfg pdata_dict pname status s =
     (if RES_CHECK_DEFAULT_PARTITION cfg then
        (case getitem pdata_dict ''Default'' of
           Inl e \<Rightarrow> (Inl e, s)
         | Inr v \<Rightarrow>
             if v = ''YES'' then (Inr False, log_info (msg_default pname) s)
             else (Inr status, s))
      else (Inr status, s))"

definition check_shared ::
  "config \<Rightarrow> dict \<Rightarrow> string \<Rightarrow> bool \<Rightarrow> hook_state \<Rightarrow> (py_error + bool) \<times> hook_state" where
  "check_shared cfg pdata_dict pname status s =
     (if RES_CHECK_SHARED_PARTITION cfg then
        (case getitem pdata_dict ''Shared'' of
           Inl e \<Rightarrow> (Inl e, s)
         | Inr v \<Rightarrow>
             if v \<noteq> ''NO'' then (Inr False, log_info (msg_shared pname) s)
             else (Inr status, s))
      else (Inr status, s))"

definition check_exclusive ::
  "config \<Rightarrow> env_dict \<Rightarrow> dict \<Rightarrow> string \<Rightarrow> bool \<Rightarrow> hook_state
     \<Rightarrow> (py_error + bool) \<times> hook_state" where
  "check_exclusive cfg env pdata_dict pname status s =
     (if RES_CHECK_EXCLUSIVE_PARTITION cfg then
        (case getitem pdata_dict ''ExclusiveUser'' of
           Inl e \<Rightarrow> (Inl e, s)
         | Inr v \<Rightarrow>
             if v \<noteq> ''YES''
             then (Inr False, log_info (msg_exclusive pname (username env)) s)
             else (Inr status, s))
      else (Inr status, s))"

definition check_hil_partition ::
  "config \<Rightarrow> env_dict \<Rightarrow> dict \<Rightarrow> hook_state \<Rightarrow> (py_error + bool) \<times> hook_state" where
  "check_hil_partition cfg env pdata_dict s =
     (case getitem pdata_dict ''PartitionName'' of
        Inl e \<Rightarrow> (Inl e, s)
      | Inr pname \<Rightarrow>
          (case check_name cfg pname True s of
             (status1, s1) \<Rightarrow>
               (case check_state cfg pdata_dict pname status1 s1 of
                  (Inl e, s2) \<Rightarrow> (Inl e, s2)
                | (Inr status2, s2) \<Rightarrow>
                    (case check_default cfg pdata_dict pname status2 s2 of
                       (Inl e, s3) \<Rightarrow> (Inl e, s3)
                     | (Inr status3, s3) \<Rightarrow>
                         (case check_shared cfg pdata_dict pname status3 s3 of
                            (Inl e, s4) \<Rightarrow> (Inl e, s4)
                          | (Inr status4, s4) \<Rightarrow>
                              check_exclusive cfg env pdata_dict pname status4 s4)))))"

subsection \<open>Dates and times of the Python library\<close>

text \<open>
  A naive \<^verbatim>\<open>datetime\<close> is the number of seconds since 0001-01-01T00:00:00 on the
  proleptic Gregorian calendar, and a \<^verbatim>\<open>timedelta\<close> a number of seconds. The
  library represents the years 1 to 9999 only: a sum outside that range raises
  \<open>OverflowError\<close>.
\<close>

type_synonym datetime = int

definition dt_max :: int where
  "dt_max = 3652059 * 86400"

definition dt_add :: "datetime \<Rightarrow> int \<Rightarrow> py_error + datetime" where
  "dt_add t delta = (if 0 \<le> t + delta \<and> t + delta < dt_max then Inr (t + delta)
                     else Inl OverflowError)"

definition is_leap :: "int \<Rightarrow> bool" where
  "is_leap y = (y mod 4 = 0 \<and> (y mod 400 = 0 \<or> y mod 100 \<noteq> 0))"

definition days_in_month :: "int \<Rightarrow> int \<Rightarrow> int" where
  "days_in_month y m =
     (if m = 2 then (if is_leap y then 29 else 28)
      else if m = 4 \<or> m = 6 \<or> m = 9 \<or> m = 11 then 30 else 31)"

definition days_before_year :: "int \<Rightarrow> int" where
  "days_before_year y = (y - 1) * 365 + (y - 1) div 4 - (y - 1) div 100 + (y - 1) div 400"

definition days_before_month :: "int \<Rightarrow> int \<Rightarrow> int" where
  "days_before_month y m = (\<Sum>k \<leftarrow> [1 ..< nat m]. days_in_month y (int k))"

definition mk_datetime :: "int \<Rightarrow> int \<Rightarrow> int \<Rightarrow> int \<Rightarrow> int \<Rightarrow> int \<Rightarrow> datetime" where
  "mk_datetime y mo d h mi sec =
     (days_before_year y + days_before_month y mo + d - 1) * 86400
       + h * 3600 + mi * 60 + sec"

definition dt_hour :: "datetime \<Rightarrow> int" where
  "dt_hour t = (t div 3600) mod 24"

definition dt_minute :: "datetime \<Rightarrow> int" where
  "dt_minute t = (t div 60) mod 60"

definition dt_second :: "datetime \<Rightarrow> int" where
  "dt_second t = t mod 60"

text \<open>The year and the day of the year (from 0) of a day number (from 0).\<close>

definition year_of_days :: "int \<Rightarrow> int \<times> int" where
  "year_of_days n =
     (let n400 = n div 146097; r400 = n mod 146097;
          n100 = r400 div 36524; r100 = r400 mod 36524;
          n4 = r100 div 1461; r4 = r100 mod 1461;
          n1 = r4 div 365; r1 = r4 mod 365;
          y = n400 * 400 + n100 * 100 + n4 * 4 + n1 + 1
      in if n1 = 4 \<or> n100 = 4 then (y - 1, 365) else (y, r1))"

fun month_of_yday :: "int \<Rightarrow> nat \<Rightarrow> int \<Rightarrow> int \<Rightarrow> int \<times> int" where
  "month_of_yday y 0 m r = (m, r + 1)"
| "month_of_yday y (Suc fuel) m r =
     (if r < days_in_month y m then (m, r + 1)
      else month_of_yday y fuel (m + 1) (r - days_in_month y m))"

definition dt_year :: "datetime \<Rightarrow> int" where
  "dt_year t = fst (year_of_days (t div 86400))"

definition dt_month :: "datetime \<Rightarrow> int" where
  "dt_month t = (case year_of_days (t div 86400) of (y, r) \<Rightarrow> fst (month_of_yday y 11 1 r))"

definition dt_day :: "datetime \<Rightarrow> int" where
  "dt_day t = (case year_of_days (t div 86400) of (y, r) \<Rightarrow> snd (month_of_yday y 11 1 r))"

text \<open>Decimal digits: reading a field and printing one with leading zeros.\<close>

definition is_digit :: "char \<Rightarrow> bool" where
  "is_digit c = (c \<in> set ''0123456789'')"

definition digit_val :: "char \<Rightarrow> int" where
  "digit_val c = int (of_char c) - 48"

fun take_digits :: "nat \<Rightarrow> string \<Rightarrow> string \<times> string" where
  "take_digits 0 s = ([], s)"
| "take_digits (Suc n) [] = ([], [])"
| "take_digits (Suc n) (c # cs) =
     (if is_digit c then (case take_digits n cs of (ds, rest) \<Rightarrow> (c # ds, rest))
      else ([], c # cs))"

definition digits_val :: "string \<Rightarrow> int" where
  "digits_val ds = foldl (\<lambda>acc c. acc * 10 + digit_val c) 0 ds"

definition digit_chr :: "int \<Rightarrow> char" where
  "digit_chr d = char_of (48 + nat d)"

definition pad2 :: "int \<Rightarrow> string" where
  "pad2 n = [digit_chr (n div 10 mod 10), digit_chr (n mod 10)]"

definition pad4 :: "int \<Rightarrow> string" where
  "pad4 n = pad2 (n div 100) @ pad2 (n mod 100)"

text \<open>
  The part of \<^verbatim>\<open>strptime\<close> and \<^verbatim>\<open>strftime\<close> that is modelled: formats made of
  the directives \<^verbatim>\<open>%Y %m %d %H %M %S\<close> and of literal characters other than white
  space, where each directive is followed by the end or by a literal that is not a
  digit. These are the formats of \<^verbatim>\<open>scontrol\<close>. For such a format a numeric field
  is the longest run of digits the directive allows, which is what the regular
  expression of the library matches.
\<close>

definition is_directive :: "char \<Rightarrow> bool" where
  "is_directive d = (d \<in> set ''YmdHMS'')"

definition is_space :: "char \<Rightarrow> bool" where
  "is_space c = (c \<in> {CHR '' '', CHR 0x09, CHR 0x0A, CHR 0x0B, CHR 0x0C, CHR 0x0D})"

fun modelled_format :: "string \<Rightarrow> bool" where
  "modelled_format [] = True"
| "modelled_format [c] = (c \<noteq> CHR ''%'' \<and> \<not> is_space c)"
| "modelled_format (c # d # fmt) =
     (if c = CHR ''%'' then
        is_directive d
        \<and> (case fmt of [] \<Rightarrow> True | x # xs \<Rightarrow> x \<noteq> CHR ''%'' \<and> \<not> is_digit x)
        \<and> modelled_format fmt
      else \<not> is_space c \<and> modelled_format (d # fmt))"

text \<open>
  \<^verbatim>\<open>datetime.strptime\<close>. Literal characters match without regard to case. A day
  may be written as a space and one digit. A field that is absent from the format
  keeps the default of the library (1900-01-01T00:00:00). Every failure is
  \<open>ValueError\<close>.
\<close>

record fields =
  f_year :: int
  f_month :: int
  f_day :: int
  f_hour :: int
  f_minute :: int
  f_second :: int

definition default_fields :: fields where
  "default_fields =
     \<lparr>f_year = 1900, f_month = 1, f_day = 1, f_hour = 0, f_minute = 0, f_second = 0\<rparr>"

definition lower_chr :: "char \<Rightarrow> char" where
  "lower_chr c =
     (if c \<in> set ''ABCDEFGHIJKLMNOPQRSTUVWXYZ'' then char_of (of_char c + (32 :: nat)) else c)"

definition read_number :: "nat \<Rightarrow> string \<Rightarrow> (int \<times> string) option" where
  "read_number n s =
     (case take_digits n s of (ds, rest) \<Rightarrow>
        if ds = [] then None else Some (digits_val ds, rest))"

definition read_padded_day :: "string \<Rightarrow> (int \<times> string) option" where
  "read_padded_day s =
     (case s of
        x # y # rest \<Rightarrow>
          if x = CHR '' '' \<and> y \<in> set ''123456789'' then Some (digit_val y, rest) else None
      | _ \<Rightarrow> None)"

definition read_field :: "char \<Rightarrow> string \<Rightarrow> fields \<Rightarrow> (fields \<times> string) option" where
  "read_field d s f =
     (if d = CHR ''Y'' then
        (case take_digits 4 s of (ds, rest) \<Rightarrow>
           if length ds = 4 then Some (f\<lparr>f_year := digits_val ds\<rparr>, rest) else None)
      else if d = CHR ''d'' then
        (case read_number 2 s of
           Some (v, rest) \<Rightarrow>
             if 1 \<le> v \<and> v \<le> 31 then Some (f\<lparr>f_day := v\<rparr>, rest) else None
         | None \<Rightarrow>
             (case read_padded_day s of
                Some (v, rest) \<Rightarrow> Some (f\<lparr>f_day := v\<rparr>, rest)
              | None \<Rightarrow> None))
      else
        (case read_number 2 s of
           None \<Rightarrow> None
         | Some (v, rest) \<Rightarrow>
             if d = CHR ''m'' then
               (if 1 \<le> v \<and> v \<le> 12 then Some (f\<lparr>f_month := v\<rparr>, rest) else None)
             else if d = CHR ''H'' then
               (if v \<le> 23 then Some (f\<lparr>f_hour := v\<rparr>, rest) else None)
             else if d = CHR ''M'' then
               (if v \<le> 59 then Some (f\<lparr>f_minute := v\<rparr>, rest) else None)
             else if d = CHR ''S'' then
               (if v \<le> 59 then Some (f\<lparr>f_second := v\<rparr>, rest) else None)
             else None))"

fun read_fields :: "string \<Rightarrow> string \<Rightarrow> fields \<Rightarrow> fields option" where
  "read_fields [] s f = (if s = [] then Some f else None)"
| "read_fields [c] s f = (case s of [] \<Rightarrow> None | x # xs \<Rightarrow>
       if lower_chr x = lower_chr c \<and> c \<noteq> CHR ''%'' then read_fields [] xs f else None)"
| "read_fields (c # d # fmt) s f =
     (if c = CHR ''%'' then
        (case read_field d s f of
           None \<Rightarrow> None
         | Some (f', rest) \<Rightarrow> read_fields fmt rest f')
      else (case s of [] \<Rightarrow> None | x # xs \<Rightarrow>
              if lower_chr x = lower_chr c then read_fields (d # fmt) xs f else None))"

definition strptime :: "string \<Rightarrow> string \<Rightarrow> py_error + datetime" where
  "strptime s fmt =
     (if \<not> modelled_format fmt then Inl NotModelled
      else
        (case read_fields fmt s default_fields of
           None \<Rightarrow> Inl ValueError
         | Some f \<Rightarrow>
             if 1 \<le> f_year f \<and> f_day f \<le> days_in_month (f_year f) (f_month f)
             then Inr (mk_datetime (f_year f) (f_month f) (f_day f)
                         (f_hour f) (f_minute f) (f_second f))
             else Inl ValueError))"

text \<open>
  \<^verbatim>\<open>dt.strftime(fmt)\<close> for the same formats: each field is printed with leading
  zeros. Python 2 refuses a year before 1900 with \<open>ValueError\<close>.
\<close>

definition write_field :: "char \<Rightarrow> datetime \<Rightarrow> string" where
  "write_field d t =
     (if d = CHR ''Y'' then pad4 (dt_year t)
      else if d = CHR ''m'' then pad2 (dt_month t)
      else if d = CHR ''d'' then pad2 (dt_day t)
      else if d = CHR ''H'' then pad2 (dt_hour t)
      else if d = CHR ''M'' then pad2 (dt_minute t)
      else pad2 (dt_second t))"

fun write_fields :: "string \<Rightarrow> datetime \<Rightarrow> string" where
  "write_fields [] t = []"
| "write_fields [c] t = [c]"
| "write_fields (c # d # fmt) t =
     (if c = CHR ''%'' then write_field d t @ write_fields fmt t
      else c # write_fields (d # fmt) t)"

definition strftime :: "datetime \<Rightarrow> string \<Rightarrow> py_error + string" where
  "strftime t fmt =
     (if \<not> modelled_format fmt then Inl NotModelled
      else if dt_year t < 1900 then Inl ValueError
      else Inr (write_fields fmt t))"

subsection \<open>The resource manager\<close>

text \<open>
  The helpers of \<^verbatim>\<open>hil_slurm_helpers\<close> run \<^verbatim>\<open>scontrol\<close> and return what it printed
  on its standard output and standard error. The manager is a parameter: its answer
  may depend on the commands it has received so far. Every command is recorded.
\<close>

type_synonym manager = "call list \<Rightarrow> call \<Rightarrow> string \<times> string"

definition exec_scontrol :: "manager \<Rightarrow> call \<Rightarrow> hook_state \<Rightarrow> (string \<times> string) \<times> hook_state" where
  "exec_scontrol mgr c s = (mgr (calls s) c, s\<lparr>calls := calls s @ [c]\<rparr>)"

subsection \<open>The reservation window\<close>

text \<open>
  \<^verbatim>\<open>_get_hil_reservation_times\<close>, lines 158 to 180: the partition has a maximum
  time. The result is the value of \<^verbatim>\<open>t_end_dt\<close>, \<open>None\<close> while the variable is
  not assigned. With one field the duration is computed and not used; with two fields
  the first expression evaluated is \<^verbatim>\<open>datetime.timedelta\<close>, where \<^verbatim>\<open>datetime\<close> is
  the class imported at line 15, which has no such attribute.
\<close>

definition partition_max_end ::
  "config \<Rightarrow> string \<Rightarrow> datetime \<Rightarrow> hook_state \<Rightarrow> (py_error + datetime option) \<times> hook_state" where
  "partition_max_end cfg p_max_time_s t_start_dt s =
     (let s1 = log_debug ''Using partition time limit to calculate reservation end time'' s;
          d_hms = split_chr CHR ''-'' p_max_time_s
      in if length d_hms = 1 then
           (case strptime (d_hms ! 0) (SHOW_PARTITION_MAXTIME_HMS_FMT cfg) of
              Inl e \<Rightarrow> (Inl e, s1)
            | Inr p_max_hms_dt \<Rightarrow>
                (let p_max_timedelta = dt_hour p_max_hms_dt * 3600
                       + dt_minute p_max_hms_dt * 60 + dt_second p_max_hms_dt
                 in (Inr None, s1)))
         else if length d_hms = 2 then (Inl AttributeError, s1)
         else (Inr None,
               log_error (''Cannot parse partition MaxTime (`'' @ p_max_time_s @ ''`)'') s1))"

text \<open>Lines 136 to 185: the value of \<^verbatim>\<open>t_end_dt\<close> after the branches.\<close>

definition reservation_end ::
  "config \<Rightarrow> dict \<Rightarrow> dict \<Rightarrow> string \<Rightarrow> datetime \<Rightarrow> hook_state
     \<Rightarrow> (py_error + datetime option) \<times> hook_state" where
  "reservation_end cfg pdata_dict jobdata_dict t_job_end_s t_start_dt s =
     (if \<not> contains t_job_end_s ''Unknown'' then
        (let s1 = log_debug ''Using job end time for reservation'' s
         in case strptime t_job_end_s (SHOW_OBJ_TIME_FMT cfg) of
              Inl e \<Rightarrow> (Inl e, s1)
            | Inr t_end_dt \<Rightarrow>
                (case dt_add t_end_dt (HIL_RESERVATION_GRACE_PERIOD cfg) of
                   Inl e \<Rightarrow> (Inl e, s1)
                 | Inr t \<Rightarrow> (Inr (Some t), s1)))
      else
        (case getitem jobdata_dict ''TimeLimit'' of
           Inl e \<Rightarrow> (Inl e, s)
         | Inr time_limit \<Rightarrow>
             if contains time_limit ''UNLIMITED'' then
               (case getitem pdata_dict ''MaxTime'' of
                  Inl e \<Rightarrow> (Inl e, s)
                | Inr p_max_time_s \<Rightarrow>
                    (let s1 = log_debug (''Partition MaxTime is '' @ p_max_time_s) s
                     in if contains p_max_time_s ''UNLIMITED'' then
                          (let s2 = log_debug
                             ''No job or partition time limit, using HIL default reservation duration''
                             s1
                           in case dt_add t_start_dt (HIL_RESERVATION_DEFAULT_DURATION cfg) of
                                Inl e \<Rightarrow> (Inl e, s2)
                              | Inr t \<Rightarrow> (Inr (Some t), s2))
                        else partition_max_end cfg p_max_time_s t_start_dt s1))
             else (Inr None, log_debug ''Job has a time limit! Unsupported!'' s)))"

text \<open>
  Lines 189 to 195: reading \<^verbatim>\<open>t_end_dt\<close> while it is not assigned raises
  \<open>UnboundLocalError\<close>, after the start time has been formatted.
\<close>

definition format_times ::
  "config \<Rightarrow> datetime \<Rightarrow> datetime option \<Rightarrow> py_error + string \<times> string" where
  "format_times cfg t_start_dt t_end_opt =
     (case strftime t_start_dt (RES_CREATE_TIME_FMT cfg) of
        Inl e \<Rightarrow> Inl e
      | Inr t_start_s \<Rightarrow>
          (case t_end_opt of
             None \<Rightarrow> Inl UnboundLocalError
           | Some t_end_dt \<Rightarrow>
               (case strftime t_end_dt (RES_CREATE_TIME_FMT cfg) of
                  Inl e \<Rightarrow> Inl e
                | Inr t_end_s \<Rightarrow> Inr (t_start_s, t_end_s))))"

definition get_hil_reservation_times ::
  "config \<Rightarrow> env_dict \<Rightarrow> dict \<Rightarrow> dict \<Rightarrow> hook_state
     \<Rightarrow> (py_error + string \<times> string) \<times> hook_state" where
  "get_hil_reservation_times cfg env pdata_dict jobdata_dict s =
     (case getitem jobdata_dict ''StartTime'' of
        Inl e \<Rightarrow> (Inl e, s)
      | Inr t_job_start_s \<Rightarrow>
          (case getitem jobdata_dict ''EndTime'' of
             Inl e \<Rightarrow> (Inl e, s)
           | Inr t_job_end_s \<Rightarrow>
               (case strptime t_job_start_s (SHOW_OBJ_TIME_FMT cfg) of
                  Inl e \<Rightarrow> (Inl e, s)
                | Inr t_start_dt \<Rightarrow>
                    (case reservation_end cfg pdata_dict jobdata_dict t_job_end_s t_start_dt s of
                       (Inl e, s1) \<Rightarrow> (Inl e, s1)
                     | (Inr t_end_opt, s1) \<Rightarrow> (format_times cfg t_start_dt t_end_opt, s1)))))"

subsection \<open>Reservation names, creation and deletion\<close>

text \<open>
  \<^verbatim>\<open>_get_hil_reservation_name\<close>: adding \<^verbatim>\<open>None\<close> to a string raises
  \<open>TypeError\<close>.
\<close>

definition get_hil_reservation_name ::
  "config \<Rightarrow> string \<Rightarrow> env_dict \<Rightarrow> string \<Rightarrow> py_error + string" where
  "get_hil_reservation_name cfg name_token env t_start_s =
     (let resname = HIL_RESERVATION_PREFIX cfg @ ''_'' @ name_token @ ''_''
      in case username env of
           None \<Rightarrow> Inl TypeError
         | Some u \<Rightarrow>
             (case job_uid env of
                None \<Rightarrow> Inl TypeError
              | Some j \<Rightarrow> Inr (resname @ u @ ''_'' @ j @ ''_'' @ t_start_s)))"

text \<open>The two messages of \<^verbatim>\<open>_create_hil_reservation\<close>.\<close>

definition msg_exists :: "string \<Rightarrow> string" where
  "msg_exists resname = ''HIL reservation `'' @ resname @ ''` already exists''"

definition msg_creating :: "string \<Rightarrow> string \<Rightarrow> string" where
  "msg_creating resname t_end_s =
     ''Creating HIL reservation `'' @ resname @ ''`, ending '' @ t_end_s"

text \<open>
  \<^verbatim>\<open>_create_hil_reservation\<close>: the reservation is looked up first; what decides is
  the error text of the lookup alone.
\<close>

definition create_hil_reservation ::
  "config \<Rightarrow> manager \<Rightarrow> string \<Rightarrow> env_dict \<Rightarrow> dict \<Rightarrow> dict \<Rightarrow> hook_state
     \<Rightarrow> (py_error + string \<times> string) \<times> hook_state" where
  "create_hil_reservation cfg mgr name_token env pdata_dict jobdata_dict s =
     (case get_hil_reservation_times cfg env pdata_dict jobdata_dict s of
        (Inl e, s1) \<Rightarrow> (Inl e, s1)
      | (Inr (t_start_s, t_end_s), s1) \<Rightarrow>
          (case get_hil_reservation_name cfg name_token env t_start_s of
             Inl e \<Rightarrow> (Inl e, s1)
           | Inr resname \<Rightarrow>
               (case exec_scontrol mgr (ShowReservation resname) s1 of
                  ((stdout_data, stderr_data), s2) \<Rightarrow>
                    if stderr_data \<noteq> [] \<and> \<not> contains stderr_data ''not found'' then
                      (Inr (resname, stderr_data), log_info (msg_exists resname) s2)
                    else
                      (let s3 = log_info (msg_creating resname t_end_s) s2
                       in case exec_scontrol mgr
                                 (CreateReservation resname (username env) t_start_s t_end_s
                                    (RES_CREATE_FLAGS cfg) (RES_CREATE_HIL_FEATURES cfg)) s3 of
                            ((stdout_data', stderr_data'), s4) \<Rightarrow>
                              (Inr (resname, stderr_data'), s4)))))"

text \<open>The two messages of \<^verbatim>\<open>_delete_hil_reservation\<close>.\<close>

definition msg_deleting :: "string \<Rightarrow> string" where
  "msg_deleting resname = ''Deleting HIL reservation `'' @ resname @ ''`''"

definition msg_bad_name :: "string \<Rightarrow> string" where
  "msg_bad_name resname = ''Error in HIL reservation name (`'' @ resname @ ''`)''"

definition delete_hil_reservation ::
  "config \<Rightarrow> manager \<Rightarrow> env_dict \<Rightarrow> string \<Rightarrow> hook_state
     \<Rightarrow> (py_error + string option \<times> string) \<times> hook_state" where
  "delete_hil_reservation cfg mgr env resname s =
     (let s1 = log_info (msg_deleting resname) s
      in case username env of
           None \<Rightarrow> (Inl TypeError, s1)
         | Some u \<Rightarrow>
             if \<not> startswith resname (HIL_RESERVATION_PREFIX cfg @ u) then
               (Inr (None, ''hil_release: error: Invalid reservation name''),
                log_info (msg_bad_name resname) s1)
             else
               (case exec_scontrol mgr (DeleteReservation resname) s1 of
                  ((stdout_data, stderr_data), s2) \<Rightarrow>
                    (Inr (Some stdout_data, stderr_data), s2)))"

subsection \<open>The two commands\<close>

definition hil_reserve_cmd ::
  "config \<Rightarrow> manager \<Rightarrow> env_dict \<Rightarrow> dict \<Rightarrow> dict \<Rightarrow> hook_state
     \<Rightarrow> (py_error + unit) \<times> hook_state" where
  "hil_reserve_cmd cfg mgr env pdata_dict jobdata_dict s =
     (case create_hil_reservation cfg mgr (HIL_RESERVE cfg) env pdata_dict jobdata_dict s of
        (Inl e, s1) \<Rightarrow> (Inl e, s1)
      | (Inr r1, s1) \<Rightarrow>
          (case create_hil_reservation cfg mgr (HIL_RELEASE cfg) env pdata_dict jobdata_dict s1 of
             (Inl e, s2) \<Rightarrow> (Inl e, s2)
           | (Inr r2, s2) \<Rightarrow> (Inr (), s2)))"

text \<open>
  Reading a variable. The local variables of a function that hold strings are a map
  from their names; a name that is bound neither there nor in the module raises
  \<open>NameError\<close>. \<open>module_names\<close> lists what the module binds at its top level: the
  imports of lines 9 to 40 and the functions. None of them is \<^verbatim>\<open>resname\<close> or
  \<^verbatim>\<open>re\<close>.
\<close>

definition module_names :: "string list" where
  "module_names =
     [''argparse'', ''hostlist'', ''inspect'', ''logging'', ''os'', ''sys'',
      ''datetime'', ''timedelta'', ''libdir'',
      ''get_partition_data'', ''get_job_data'', ''exec_scontrol_cmd'',
      ''exec_scontrol_show_cmd'', ''create_slurm_reservation'',
      ''update_slurm_reservation'', ''delete_slurm_reservation'',
      ''SHOW_OBJ_TIME_FMT'', ''RES_CREATE_TIME_FMT'', ''SHOW_PARTITION_MAXTIME_HMS_FMT'',
      ''RES_CREATE_HIL_FEATURES'', ''HIL_RESERVE'', ''HIL_RELEASE'',
      ''HIL_RESERVATION_COMMANDS'', ''HIL_RESERVATION_PREFIX'', ''RES_CREATE_FLAGS'',
      ''RES_RELEASE_FLAGS'', ''log_init'', ''log_info'', ''log_debug'', ''log_error'',
      ''HIL_PARTITION_PREFIX'', ''RES_CHECK_DEFAULT_PARTITION'',
      ''RES_CHECK_EXCLUSIVE_PARTITION'', ''RES_CHECK_SHARED_PARTITION'',
      ''RES_CHECK_PARTITION_STATE'', ''HIL_RESERVATION_DEFAULT_DURATION'',
      ''HIL_RESERVATION_GRACE_PERIOD'', ''HIL_SLURMCTLD_PROLOG_LOGFILE'',
      ''USER_HIL_SUBDIR'', ''USER_HIL_LOGFILE'',
      ''_get_prolog_environment'', ''_get_user_hil_subdir'', ''_check_hil_partition'',
      ''_check_hil_command'', ''_get_hil_reservation_times'', ''_create_hil_reservation'',
      ''_modify_hil_reservation'', ''_delete_hil_reservation'',
      ''_get_hil_reservation_name'', ''_log_hil_reservation'', ''_hil_reserve_cmd'',
      ''_hil_release_cmd'', ''process_args'', ''main'']"

text \<open>
  \<open>load_name\<close> reads a name that the module does not bind, in the scope of a
  function.
\<close>

definition load_name :: "(string \<rightharpoonup> string) \<Rightarrow> string \<Rightarrow> py_error + string" where
  "load_name locals n = (case locals n of Some v \<Rightarrow> Inr v | None \<Rightarrow> Inl NameError)"

text \<open>
  \<^verbatim>\<open>_hil_release_cmd\<close>. Its only local string is \<^verbatim>\<open>reserve_resname\<close>; the
  messages and the deletion read \<^verbatim>\<open>resname\<close>. In a tuple the first component is
  evaluated first. \<^verbatim>\<open>_log_hil_reservation\<close> does nothing. The last statement is
  \<^verbatim>\<open>re.sub()\<close>, without arguments, and the function never calls
  \<^verbatim>\<open>update_slurm_reservation\<close> or \<^verbatim>\<open>_modify_hil_reservation\<close>.
\<close>

definition msg_not_owned :: "string \<Rightarrow> string \<Rightarrow> string" where
  "msg_not_owned resname user =
     ''Reservation `'' @ resname @ ''` not owned by user `'' @ user @ ''`''"

definition msg_not_reserve :: "string \<Rightarrow> string" where
  "msg_not_reserve resname =
     ''Reservation `'' @ resname @ ''` is not a HIL reserve reservation''"

definition msg_no_reservation :: "string \<Rightarrow> string" where
  "msg_no_reservation job_name =
     ''No reservation name specified to `'' @ job_name @ ''` command''"

definition hil_release_cmd ::
  "config \<Rightarrow> manager \<Rightarrow> env_dict \<Rightarrow> dict \<Rightarrow> dict \<Rightarrow> hook_state
     \<Rightarrow> (py_error + unit) \<times> hook_state" where
  "hil_release_cmd cfg mgr env pdata_dict jobdata_dict s =
     (case getitem jobdata_dict ''Reservation'' of
        Inl e \<Rightarrow> (Inl e, s)
      | Inr reserve_resname \<Rightarrow>
          (let locals = [''reserve_resname'' \<mapsto> reserve_resname]
           in if reserve_resname \<noteq> [] then
                (case username env of
                   None \<Rightarrow> (Inl TypeError, s)
                 | Some u \<Rightarrow>
                     if \<not> contains reserve_resname u then
                       (case load_name locals ''resname'' of
                          Inl e \<Rightarrow> (Inl e, s)
                        | Inr resname \<Rightarrow>
                            (Inr (), log_error (msg_not_owned resname u) s))
                     else if \<not> contains reserve_resname (HIL_RESERVE cfg) then
                       (case load_name locals ''resname'' of
                          Inl e \<Rightarrow> (Inl e, s)
                        | Inr resname \<Rightarrow>
                            (Inr (), log_error (msg_not_reserve resname) s))
                     else
                       (case load_name locals ''resname'' of
                          Inl e \<Rightarrow> (Inl e, s)
                        | Inr resname \<Rightarrow>
                            (case delete_hil_reservation cfg mgr env resname s of
                               (Inl e, s1) \<Rightarrow> (Inl e, s1)
                             | (Inr (stdout_data, stderr_data), s1) \<Rightarrow>
                                 (if ''re'' \<in> set module_names then Inl TypeError
                                  else Inl NameError, s1))))
              else
                (case getitem jobdata_dict ''JobName'' of
                   Inl e \<Rightarrow> (Inl e, s)
                 | Inr job_name \<Rightarrow>
                     (Inr (), log_error (msg_no_reservation job_name) s))))"

subsection \<open>Sample settings and inputs\<close>

text \<open>
  Settings in the style of the project, the environment of a job of user
  \<^verbatim>\<open>alice\<close>, a manager that knows no reservation, and the records of a job and
  of a partition as \<^verbatim>\<open>scontrol show\<close> prints them.
\<close>

definition cfg_ex :: config where
  "cfg_ex =
     \<lparr>HIL_PARTITION_PREFIX = ''hil_'',
      RES_CHECK_DEFAULT_PARTITION = True,
      RES_CHECK_EXCLUSIVE_PARTITION = True,
      RES_CHECK_SHARED_PARTITION = True,
      RES_CHECK_PARTITION_STATE = True,
      HIL_RESERVATION_DEFAULT_DURATION = 3600,
      HIL_RESERVATION_GRACE_PERIOD = 600,
      SHOW_OBJ_TIME_FMT = ''%Y-%m-%dT%H:%M:%S'',
      RES_CREATE_TIME_FMT = ''%Y-%m-%dT%H:%M:%S'',
      SHOW_PARTITION_MAXTIME_HMS_FMT = ''%H:%M:%S'',
      RES_CREATE_HIL_FEATURES = ''HIL'',
      RES_CREATE_FLAGS = ''MAINT,IGNORE_JOBS'',
      HIL_RESERVE = ''reserve'',
      HIL_RELEASE = ''release'',
      HIL_RESERVATION_PREFIX = ''flexalloc_MOC''\<rparr>"

definition env_ex :: "string \<Rightarrow> env_dict" where
  "env_ex job_name =
     \<lparr>jobname = Some job_name, partition = Some ''hil_part1'', username = Some ''alice'',
      job_id = Some ''42'', job_uid = Some ''1000'', job_account = Some ''moc'',
      nodelist = Some ''node[1-2]''\<rparr>"

definition mgr_ex :: manager where
  "mgr_ex history c =
     (case c of
        ShowReservation n \<Rightarrow> ([], ''Reservation '' @ n @ '' not found'')
      | CreateReservation n u a b f g \<Rightarrow> (''Reservation created: '' @ n, [])
      | DeleteReservation n \<Rightarrow> ([], []))"

text \<open>A manager that cannot be reached: every command fails with the same error.\<close>

definition mgr_down_ex :: manager where
  "mgr_down_ex history c =
     ([], ''slurm_load_reservations error: Unable to contact slurm controller'')"

definition st_ex :: hook_state where
  "st_ex = \<lparr>logged = [], calls = []\<rparr>"

definition part_ex :: "string \<Rightarrow> string \<Rightarrow> string \<Rightarrow> dict" where
  "part_ex state shared max_time =
     map_of [(''PartitionName'', ''hil_part1''), (''State'', state), (''Default'', ''NO''),
             (''Shared'', shared), (''ExclusiveUser'', ''YES''), (''MaxTime'', max_time)]"

definition job_ex :: "string \<Rightarrow> string \<Rightarrow> dict" where
  "job_ex end_time time_limit =
     map_of [(''JobName'', ''hil_reserve''), (''StartTime'', ''2017-05-01T10:00:00''),
             (''EndTime'', end_time), (''TimeLimit'', time_limit)]"

definition release_job_ex :: "string \<Rightarrow> dict" where
  "release_job_ex reservation =
     map_of [(''JobName'', ''hil_release''), (''StartTime'', ''2017-05-01T12:00:00''),
             (''EndTime'', ''Unknown''), (''TimeLimit'', ''UNLIMITED''),
             (''Reservation'', reservation)]"

section \<open>Properties\<close>

subsection \<open>Strings, log and names\<close>

lemma startswith_iff: "startswith s p \<longleftrightarrow> (\<exists>r. s = p @ r)"
  unfolding startswith_def
  by (metis append_eq_conv_conj append_take_drop_id)

lemma startswith_append [simp]: "startswith (p @ r) p"
  by (simp add: startswith_def)

lemma contains_iff: "contains s sub \<longleftrightarrow> (\<exists>ps ss. s = ps @ sub @ ss)"
proof (induction s)
  case Nil
  then show ?case by auto
next
  case (Cons c cs)
  show ?case
  proof
    assume "contains (c # cs) sub"
    then consider "startswith (c # cs) sub" | "contains cs sub" by auto
    then show "\<exists>ps ss. c # cs = ps @ sub @ ss"
    proof cases
      case 1
      then obtain r where "c # cs = sub @ r" by (auto simp: startswith_iff)
      then have "c # cs = [] @ sub @ r" by simp
      then show ?thesis by blast
    next
      case 2
      then obtain ps ss where "cs = ps @ sub @ ss" using Cons.IH by blast
      then have "c # cs = (c # ps) @ sub @ ss" by simp
      then show ?thesis by blast
    qed
  next
    assume "\<exists>ps ss. c # cs = ps @ sub @ ss"
    then obtain ps ss where eq: "c # cs = ps @ sub @ ss" by blast
    show "contains (c # cs) sub"
    proof (cases ps)
      case Nil
      with eq have "startswith (c # cs) sub" by (auto simp: startswith_iff)
      then show ?thesis by simp
    next
      case (Cons a as)
      with eq have "cs = as @ sub @ ss" by simp
      then have "contains cs sub" using Cons.IH by blast
      then show ?thesis by simp
    qed
  qed
qed

lemma log_info_logged: "logged (log_info m s) = logged s @ [(INFO, m)]"
  by (simp add: log_info_def)
lemma log_info_calls: "calls (log_info m s) = calls s"
  by (simp add: log_info_def)
lemma log_debug_logged: "logged (log_debug m s) = logged s @ [(DEBUG, m)]"
  by (simp add: log_debug_def)
lemma log_debug_calls: "calls (log_debug m s) = calls s"
  by (simp add: log_debug_def)
lemma log_error_logged: "logged (log_error m s) = logged s @ [(ERROR, m)]"
  by (simp add: log_error_def)
lemma log_error_calls: "calls (log_error m s) = calls s"
  by (simp add: log_error_def)

lemma load_resname: "load_name [''reserve_resname'' \<mapsto> r] ''resname'' = Inl NameError"
  by (simp add: load_name_def)

lemma resname_unbound: "''resname'' \<notin> set module_names"
  by (simp add: module_names_def)

lemma re_unbound: "''re'' \<notin> set module_names"
  by (simp add: module_names_def)

subsection \<open>The release command\<close>

text \<open>
  Claim C1. A release whose job carries a reservation name that contains the user's
  name and the reserve token should delete the reserve reservation and then move the
  start of the release reservation to the current time. The code reads the unbound
  variable \<^verbatim>\<open>resname\<close> while it evaluates the arguments of the deletion: the
  command raises \<open>NameError\<close>, nothing is logged and no command reaches the manager,
  neither a deletion nor an update.
\<close>

theorem hil_release_cmd_valid_raises:
  assumes "jobdata_dict ''Reservation'' = Some r" and "r \<noteq> []"
    and "username env = Some u" and "contains r u" and "contains r (HIL_RESERVE cfg)"
  shows "hil_release_cmd cfg mgr env pdata_dict jobdata_dict s = (Inl NameError, s)"
  using assms by (simp add: hil_release_cmd_def getitem_def load_resname)

theorem hil_release_cmd_valid_raises_witness:
  "hil_release_cmd cfg_ex mgr_ex (env_ex ''hil_release'') (part_ex ''UP'' ''NO'' ''UNLIMITED'')
     (release_job_ex ''flexalloc_MOC_reserve_alice_1000_2017-05-01T10:00:00'') st_ex
   = (Inl NameError, st_ex)"
proof -
  have 1: "release_job_ex ''flexalloc_MOC_reserve_alice_1000_2017-05-01T10:00:00'' ''Reservation''
      = Some ''flexalloc_MOC_reserve_alice_1000_2017-05-01T10:00:00''"
    by (simp add: release_job_ex_def)
  have 2: "''flexalloc_MOC_reserve_alice_1000_2017-05-01T10:00:00'' \<noteq> []" by simp
  have 3: "username (env_ex ''hil_release'') = Some ''alice''" by (simp add: env_ex_def)
  have 4: "contains ''flexalloc_MOC_reserve_alice_1000_2017-05-01T10:00:00'' ''alice''"
    by code_simp
  have 5: "contains ''flexalloc_MOC_reserve_alice_1000_2017-05-01T10:00:00'' (HIL_RESERVE cfg_ex)"
    by code_simp
  show ?thesis
    using hil_release_cmd_valid_raises
            [where jobdata_dict = "release_job_ex ''flexalloc_MOC_reserve_alice_1000_2017-05-01T10:00:00''",
             OF 1 2 3 4 5]
    by simp
qed

text \<open>
  Claim C8. A release whose reservation name lacks the user's name or the reserve token
  should log an error and stop. The code stops, and sends nothing to the manager, but
  it logs nothing either: the two messages read the unbound variable \<^verbatim>\<open>resname\<close>,
  so the command raises \<open>NameError\<close> before \<^verbatim>\<open>log_error\<close> is called.
\<close>

theorem hil_release_cmd_invalid_raises:
  assumes "jobdata_dict ''Reservation'' = Some r" and "r \<noteq> []"
    and "username env = Some u"
    and "\<not> contains r u \<or> \<not> contains r (HIL_RESERVE cfg)"
  shows "hil_release_cmd cfg mgr env pdata_dict jobdata_dict s = (Inl NameError, s)"
proof (cases "contains r u")
  case True
  with assms(4) have "\<not> contains r (HIL_RESERVE cfg)" by simp
  with True assms(1-3) show ?thesis
    by (simp add: hil_release_cmd_def getitem_def load_resname)
next
  case False
  with assms(1-3) show ?thesis
    by (simp add: hil_release_cmd_def getitem_def load_resname)
qed

theorem hil_release_cmd_invalid_raises_witness:
  "hil_release_cmd cfg_ex mgr_ex (env_ex ''hil_release'') (part_ex ''UP'' ''NO'' ''UNLIMITED'')
     (release_job_ex ''flexalloc_MOC_reserve_bob_1001_2017-05-01T10:00:00'') st_ex
   = (Inl NameError, st_ex)
   \<and> logged st_ex = [] \<and> calls st_ex = []"
proof -
  have 1: "release_job_ex ''flexalloc_MOC_reserve_bob_1001_2017-05-01T10:00:00'' ''Reservation''
      = Some ''flexalloc_MOC_reserve_bob_1001_2017-05-01T10:00:00''"
    by (simp add: release_job_ex_def)
  have 2: "''flexalloc_MOC_reserve_bob_1001_2017-05-01T10:00:00'' \<noteq> []" by simp
  have 3: "username (env_ex ''hil_release'') = Some ''alice''" by (simp add: env_ex_def)
  have 4: "\<not> contains ''flexalloc_MOC_reserve_bob_1001_2017-05-01T10:00:00'' ''alice''"
    by code_simp
  then have 5: "\<not> contains ''flexalloc_MOC_reserve_bob_1001_2017-05-01T10:00:00'' ''alice''
     \<or> \<not> contains ''flexalloc_MOC_reserve_bob_1001_2017-05-01T10:00:00'' (HIL_RESERVE cfg_ex)"
    by (rule disjI1)
  show ?thesis
    using hil_release_cmd_invalid_raises
            [where jobdata_dict = "release_job_ex ''flexalloc_MOC_reserve_bob_1001_2017-05-01T10:00:00''",
             OF 1 2 3 5]
    by (simp add: st_ex_def)
qed


subsection \<open>The partition validator\<close>

lemma check_name_eq:
  "check_name cfg pname ok s =
     (ok \<and> startswith pname (HIL_PARTITION_PREFIX cfg),
      if startswith pname (HIL_PARTITION_PREFIX cfg) then s
      else log_info (msg_name pname (HIL_PARTITION_PREFIX cfg)) s)"
  by (simp add: check_name_def)

lemma check_hil_partition_steps:
  assumes "pdata_dict ''PartitionName'' = Some pname"
    and "RES_CHECK_PARTITION_STATE cfg \<longrightarrow> pdata_dict ''State'' = Some v_state"
    and "RES_CHECK_DEFAULT_PARTITION cfg \<longrightarrow> pdata_dict ''Default'' = Some v_default"
    and "RES_CHECK_SHARED_PARTITION cfg \<longrightarrow> pdata_dict ''Shared'' = Some v_shared"
    and "RES_CHECK_EXCLUSIVE_PARTITION cfg \<longrightarrow> pdata_dict ''ExclusiveUser'' = Some v_excl"
  shows "fst (check_hil_partition cfg env pdata_dict s)
           = Inr (startswith pname (HIL_PARTITION_PREFIX cfg)
                  \<and> (RES_CHECK_PARTITION_STATE cfg \<longrightarrow> v_state = ''UP'')
                  \<and> (RES_CHECK_DEFAULT_PARTITION cfg \<longrightarrow> v_default \<noteq> ''YES'')
                  \<and> (RES_CHECK_SHARED_PARTITION cfg \<longrightarrow> v_shared = ''NO'')
                  \<and> (RES_CHECK_EXCLUSIVE_PARTITION cfg \<longrightarrow> v_excl = ''YES''))
       \<and> calls (snd (check_hil_partition cfg env pdata_dict s)) = calls s
       \<and> logged (snd (check_hil_partition cfg env pdata_dict s))
           = logged s
             @ (if \<not> startswith pname (HIL_PARTITION_PREFIX cfg)
                then [(INFO, msg_name pname (HIL_PARTITION_PREFIX cfg))] else [])
             @ (if RES_CHECK_PARTITION_STATE cfg \<and> v_state \<noteq> ''UP''
                then [(INFO, msg_state pname v_state)] else [])
             @ (if RES_CHECK_DEFAULT_PARTITION cfg \<and> v_default = ''YES''
                then [(INFO, msg_default pname)] else [])
             @ (if RES_CHECK_SHARED_PARTITION cfg \<and> v_shared \<noteq> ''NO''
                then [(INFO, msg_shared pname)] else [])
             @ (if RES_CHECK_EXCLUSIVE_PARTITION cfg \<and> v_excl \<noteq> ''YES''
                then [(INFO, msg_exclusive pname (username env))] else [])"
proof -
  have st: "\<And>ok s. check_state cfg pdata_dict pname ok s =
     (Inr (ok \<and> (RES_CHECK_PARTITION_STATE cfg \<longrightarrow> v_state = ''UP'')),
      if RES_CHECK_PARTITION_STATE cfg \<and> v_state \<noteq> ''UP''
      then log_info (msg_state pname v_state) s else s)"
    using assms(2) by (simp add: check_state_def getitem_def)
  have de: "\<And>ok s. check_default cfg pdata_dict pname ok s =
     (Inr (ok \<and> (RES_CHECK_DEFAULT_PARTITION cfg \<longrightarrow> v_default \<noteq> ''YES'')),
      if RES_CHECK_DEFAULT_PARTITION cfg \<and> v_default = ''YES''
      then log_info (msg_default pname) s else s)"
    using assms(3) by (simp add: check_default_def getitem_def)
  have sh: "\<And>ok s. check_shared cfg pdata_dict pname ok s =
     (Inr (ok \<and> (RES_CHECK_SHARED_PARTITION cfg \<longrightarrow> v_shared = ''NO'')),
      if RES_CHECK_SHARED_PARTITION cfg \<and> v_shared \<noteq> ''NO''
      then log_info (msg_shared pname) s else s)"
    using assms(4) by (simp add: check_shared_def getitem_def)
  have ex: "\<And>ok s. check_exclusive cfg env pdata_dict pname ok s =
     (Inr (ok \<and> (RES_CHECK_EXCLUSIVE_PARTITION cfg \<longrightarrow> v_excl = ''YES'')),
      if RES_CHECK_EXCLUSIVE_PARTITION cfg \<and> v_excl \<noteq> ''YES''
      then log_info (msg_exclusive pname (username env)) s else s)"
    using assms(5) by (simp add: check_exclusive_def getitem_def)
  show ?thesis
    using assms(1)
    by (simp add: check_hil_partition_def getitem_def check_name_eq st de sh ex
        log_info_logged log_info_calls)
qed

text \<open>
  Claim C6. For a partition record that has the fields of the enabled checks, the
  validator returns a status and sends nothing to the manager. The status is false
  as soon as one enabled check fails: the name does not start with the partition
  prefix, the state is not \<^verbatim>\<open>UP\<close>, the partition is the default one, it is
  shared, or it is not exclusive to the user. The lines added to the log are exactly
  the reasons of the failing enabled checks, in the order of the checks, each with
  the text that names its attribute; a check that passes, or whose setting is off,
  logs nothing. A check whose setting is off decides nothing and its field is not
  read; the name check has no setting.
\<close>

theorem check_hil_partition_fails:
  assumes "pdata_dict ''PartitionName'' = Some pname"
    and "RES_CHECK_PARTITION_STATE cfg \<longrightarrow> pdata_dict ''State'' = Some v_state"
    and "RES_CHECK_DEFAULT_PARTITION cfg \<longrightarrow> pdata_dict ''Default'' = Some v_default"
    and "RES_CHECK_SHARED_PARTITION cfg \<longrightarrow> pdata_dict ''Shared'' = Some v_shared"
    and "RES_CHECK_EXCLUSIVE_PARTITION cfg \<longrightarrow> pdata_dict ''ExclusiveUser'' = Some v_excl"
  shows "fst (check_hil_partition cfg env pdata_dict s)
           = Inr (startswith pname (HIL_PARTITION_PREFIX cfg)
                  \<and> (RES_CHECK_PARTITION_STATE cfg \<longrightarrow> v_state = ''UP'')
                  \<and> (RES_CHECK_DEFAULT_PARTITION cfg \<longrightarrow> v_default \<noteq> ''YES'')
                  \<and> (RES_CHECK_SHARED_PARTITION cfg \<longrightarrow> v_shared = ''NO'')
                  \<and> (RES_CHECK_EXCLUSIVE_PARTITION cfg \<longrightarrow> v_excl = ''YES''))
       \<and> calls (snd (check_hil_partition cfg env pdata_dict s)) = calls s
       \<and> logged (snd (check_hil_partition cfg env pdata_dict s))
           = logged s
             @ (if \<not> startswith pname (HIL_PARTITION_PREFIX cfg)
                then [(INFO, ''Partition name `'' @ pname @ ''` does not match `''
                               @ HIL_PARTITION_PREFIX cfg @ ''*`'')]
                else [])
             @ (if RES_CHECK_PARTITION_STATE cfg \<and> v_state \<noteq> ''UP''
                then [(INFO, ''Partition `'' @ pname @ ''` state (`'' @ v_state
                               @ ''`) is not UP'')]
                else [])
             @ (if RES_CHECK_DEFAULT_PARTITION cfg \<and> v_default = ''YES''
                then [(INFO, ''Partition `'' @ pname
                               @ ''` is the default partition, cannot be used for HIL'')]
                else [])
             @ (if RES_CHECK_SHARED_PARTITION cfg \<and> v_shared \<noteq> ''NO''
                then [(INFO, ''Partition `'' @ pname
                               @ ''` is shared, cannot be used for HIL'')]
                else [])
             @ (if RES_CHECK_EXCLUSIVE_PARTITION cfg \<and> v_excl \<noteq> ''YES''
                then [(INFO, ''Partition `'' @ pname @ ''` not exclusive to `''
                               @ fmt_s (username env) @ ''`, cannot be used for HIL'')]
                else [])"
  using check_hil_partition_steps [OF assms, of env s]
  unfolding msg_name_def msg_state_def msg_default_def msg_shared_def msg_exclusive_def
  .

lemma part_ex_fields:
  "part_ex st sh m ''PartitionName'' = Some ''hil_part1''"
  "part_ex st sh m ''State'' = Some st"
  "part_ex st sh m ''Default'' = Some ''NO''"
  "part_ex st sh m ''Shared'' = Some sh"
  "part_ex st sh m ''ExclusiveUser'' = Some ''YES''"
  by (simp_all add: part_ex_def)

theorem check_hil_partition_fails_witness:
  "fst (check_hil_partition cfg_ex (env_ex ''hil_reserve'')
          (part_ex ''DOWN'' ''YES'' ''UNLIMITED'') st_ex) = Inr False
   \<and> calls (snd (check_hil_partition cfg_ex (env_ex ''hil_reserve'')
          (part_ex ''DOWN'' ''YES'' ''UNLIMITED'') st_ex)) = []
   \<and> logged (snd (check_hil_partition cfg_ex (env_ex ''hil_reserve'')
          (part_ex ''DOWN'' ''YES'' ''UNLIMITED'') st_ex))
       = [(INFO, ''Partition `hil_part1` state (`DOWN`) is not UP''),
          (INFO, ''Partition `hil_part1` is shared, cannot be used for HIL'')]
   \<and> fst (check_hil_partition
            (cfg_ex\<lparr>RES_CHECK_PARTITION_STATE := False, RES_CHECK_SHARED_PARTITION := False\<rparr>)
            (env_ex ''hil_reserve'') (part_ex ''DOWN'' ''YES'' ''UNLIMITED'') st_ex) = Inr True
   \<and> logged (snd (check_hil_partition
            (cfg_ex\<lparr>RES_CHECK_PARTITION_STATE := False, RES_CHECK_SHARED_PARTITION := False\<rparr>)
            (env_ex ''hil_reserve'') (part_ex ''DOWN'' ''YES'' ''UNLIMITED'') st_ex)) = []"
proof -
  have p: "startswith ''hil_part1'' ''hil_''" by (simp add: startswith_def)
  note strict = check_hil_partition_fails
      [where pdata_dict = "part_ex ''DOWN'' ''YES'' ''UNLIMITED''" and cfg = cfg_ex
         and env = "env_ex ''hil_reserve''" and s = st_ex,
       OF part_ex_fields(1) impI [OF part_ex_fields(2)] impI [OF part_ex_fields(3)]
          impI [OF part_ex_fields(4)] impI [OF part_ex_fields(5)]]
  note lax = check_hil_partition_fails
      [where pdata_dict = "part_ex ''DOWN'' ''YES'' ''UNLIMITED''"
         and cfg = "cfg_ex\<lparr>RES_CHECK_PARTITION_STATE := False,
                          RES_CHECK_SHARED_PARTITION := False\<rparr>"
         and env = "env_ex ''hil_reserve''" and s = st_ex,
       OF part_ex_fields(1) impI [OF part_ex_fields(2)] impI [OF part_ex_fields(3)]
          impI [OF part_ex_fields(4)] impI [OF part_ex_fields(5)]]
  show ?thesis
    using strict lax p by (simp add: cfg_ex_def st_ex_def)
qed

subsection \<open>Reservation names and the deletion guard\<close>

text \<open>
  The format of a name: prefix, \<^verbatim>\<open>_\<close>, role token, \<^verbatim>\<open>_\<close>, user, \<^verbatim>\<open>_\<close>,
  job uid, \<^verbatim>\<open>_\<close>, start time.
\<close>

lemma get_hil_reservation_name_format:
  assumes "username env = Some u" and "job_uid env = Some j"
  shows "get_hil_reservation_name cfg name_token env t_start_s
           = Inr (HIL_RESERVATION_PREFIX cfg @ ''_'' @ name_token @ ''_'' @ u @ ''_''
                    @ j @ ''_'' @ t_start_s)"
  using assms by (simp add: get_hil_reservation_name_def)

text \<open>
  Claim C2. Every name that the constructor builds should begin with the reservation
  prefix followed at once by the user's name, which is what the deletion guard tests
  (line 242) and what its docstring promises. The constructor puts \<^verbatim>\<open>_\<close> and the
  role token between the two. For every user whose name does not start with an
  underscore, and every prefix, role token, job uid and start time, the name it
  builds does not begin with prefix and user, and the deletion guard refuses it
  without sending a command.
\<close>

theorem get_hil_reservation_name_breaks_guard:
  assumes "username env = Some (c # cs)" and "c \<noteq> CHR ''_''" and "job_uid env = Some j"
  shows "\<exists>n. get_hil_reservation_name cfg name_token env t_start_s = Inr n
           \<and> \<not> startswith n (HIL_RESERVATION_PREFIX cfg @ c # cs)
           \<and> fst (delete_hil_reservation cfg mgr env n s)
               = Inr (None, ''hil_release: error: Invalid reservation name'')
           \<and> calls (snd (delete_hil_reservation cfg mgr env n s)) = calls s"
proof -
  let ?n = "HIL_RESERVATION_PREFIX cfg @ ''_'' @ name_token @ ''_'' @ (c # cs) @ ''_''
              @ j @ ''_'' @ t_start_s"
  have n: "get_hil_reservation_name cfg name_token env t_start_s = Inr ?n"
    by (rule get_hil_reservation_name_format [OF assms(1) assms(3)])
  have p: "\<not> startswith ?n (HIL_RESERVATION_PREFIX cfg @ c # cs)"
    using assms(2) by (auto simp add: startswith_iff)
  have d: "fst (delete_hil_reservation cfg mgr env ?n s)
               = Inr (None, ''hil_release: error: Invalid reservation name'')
           \<and> calls (snd (delete_hil_reservation cfg mgr env ?n s)) = calls s"
    using assms(1) p by (simp add: delete_hil_reservation_def log_info_calls)
  from n p d show ?thesis by blast
qed

theorem get_hil_reservation_name_breaks_guard_witness:
  "get_hil_reservation_name cfg_ex ''reserve'' (env_ex ''hil_reserve'') ''2017-05-01T10:00:00''
     = Inr ''flexalloc_MOC_reserve_alice_1000_2017-05-01T10:00:00''
   \<and> \<not> startswith ''flexalloc_MOC_reserve_alice_1000_2017-05-01T10:00:00''
          (HIL_RESERVATION_PREFIX cfg_ex @ ''alice'')
   \<and> fst (delete_hil_reservation cfg_ex mgr_ex (env_ex ''hil_reserve'')
            ''flexalloc_MOC_reserve_alice_1000_2017-05-01T10:00:00'' st_ex)
       = Inr (None, ''hil_release: error: Invalid reservation name'')
   \<and> calls (snd (delete_hil_reservation cfg_ex mgr_ex (env_ex ''hil_reserve'')
            ''flexalloc_MOC_reserve_alice_1000_2017-05-01T10:00:00'' st_ex)) = []"
proof -
  have u: "username (env_ex ''hil_reserve'') = Some (CHR ''a'' # ''lice'')"
    by (simp add: env_ex_def)
  have j: "job_uid (env_ex ''hil_reserve'') = Some ''1000''"
    by (simp add: env_ex_def)
  have c: "CHR ''a'' \<noteq> CHR ''_''" by simp
  have n: "get_hil_reservation_name cfg_ex ''reserve'' (env_ex ''hil_reserve'')
             ''2017-05-01T10:00:00''
           = Inr ''flexalloc_MOC_reserve_alice_1000_2017-05-01T10:00:00''"
    by (simp add: get_hil_reservation_name_def env_ex_def cfg_ex_def)
  from get_hil_reservation_name_breaks_guard
         [OF u c j, of cfg_ex "''reserve''" "''2017-05-01T10:00:00''" mgr_ex st_ex]
  show ?thesis
    unfolding n by (simp add: st_ex_def)
qed

text \<open>
  Claim C3. When the name does not start with the reservation prefix followed by the
  user's name, the deletion returns \<^verbatim>\<open>None\<close> with the text
  \<^verbatim>\<open>hil_release: error: Invalid reservation name\<close> and the manager receives no
  command. When it does, exactly one command is sent, the deletion of that name, and
  the manager's answer is returned.
\<close>

theorem delete_hil_reservation_guard:
  assumes "username env = Some u"
  shows "(\<not> startswith resname (HIL_RESERVATION_PREFIX cfg @ u) \<longrightarrow>
            fst (delete_hil_reservation cfg mgr env resname s)
              = Inr (None, ''hil_release: error: Invalid reservation name'')
          \<and> calls (snd (delete_hil_reservation cfg mgr env resname s)) = calls s)
       \<and> (startswith resname (HIL_RESERVATION_PREFIX cfg @ u) \<longrightarrow>
            fst (delete_hil_reservation cfg mgr env resname s)
              = Inr (Some (fst (mgr (calls s) (DeleteReservation resname))),
                     snd (mgr (calls s) (DeleteReservation resname)))
          \<and> calls (snd (delete_hil_reservation cfg mgr env resname s))
              = calls s @ [DeleteReservation resname])"
  using assms
  by (simp add: delete_hil_reservation_def exec_scontrol_def log_info_calls
        split: prod.splits)

theorem delete_hil_reservation_guard_witness:
  "fst (delete_hil_reservation cfg_ex mgr_ex (env_ex ''hil_release'')
          ''flexalloc_MOC_reserve_alice_1000_2017-05-01T10:00:00'' st_ex)
     = Inr (None, ''hil_release: error: Invalid reservation name'')
   \<and> calls (snd (delete_hil_reservation cfg_ex mgr_ex (env_ex ''hil_release'')
          ''flexalloc_MOC_reserve_alice_1000_2017-05-01T10:00:00'' st_ex)) = []
   \<and> calls (snd (delete_hil_reservation cfg_ex mgr_ex (env_ex ''hil_release'')
          ''flexalloc_MOCalice_1'' st_ex)) = [DeleteReservation ''flexalloc_MOCalice_1'']"
proof -
  have u: "username (env_ex ''hil_release'') = Some ''alice''" by (simp add: env_ex_def)
  have a: "\<not> startswith ''flexalloc_MOC_reserve_alice_1000_2017-05-01T10:00:00''
               (HIL_RESERVATION_PREFIX cfg_ex @ ''alice'')"
    by (simp add: cfg_ex_def startswith_def)
  have b: "startswith ''flexalloc_MOCalice_1'' (HIL_RESERVATION_PREFIX cfg_ex @ ''alice'')"
    by (simp add: cfg_ex_def startswith_def)
  show ?thesis
    using delete_hil_reservation_guard [OF u, of "''flexalloc_MOC_reserve_alice_1000_2017-05-01T10:00:00''" cfg_ex mgr_ex st_ex]
      delete_hil_reservation_guard [OF u, of "''flexalloc_MOCalice_1''" cfg_ex mgr_ex st_ex] a b
    by (simp add: st_ex_def)
qed


subsection \<open>The reservation window\<close>

text \<open>
  Computing the window sends nothing to the manager, and its result does not depend
  on the state it starts from.
\<close>

lemma partition_max_end_calls:
  "calls (snd (partition_max_end cfg p t s)) = calls s"
  by (simp add: partition_max_end_def Let_def log_debug_calls log_error_calls
        split: sum.splits)

lemma partition_max_end_fst:
  "fst (partition_max_end cfg p t s) = fst (partition_max_end cfg p t s')"
  by (simp add: partition_max_end_def Let_def split: sum.splits)

lemma reservation_end_calls:
  "calls (snd (reservation_end cfg pd jd es t s)) = calls s"
  by (simp add: reservation_end_def Let_def log_debug_calls partition_max_end_calls
        split: sum.splits)

lemma reservation_end_fst:
  "fst (reservation_end cfg pd jd es t s) = fst (reservation_end cfg pd jd es t s')"
  using partition_max_end_fst
  by (simp add: reservation_end_def Let_def split: sum.splits)

lemma get_hil_reservation_times_calls:
  "calls (snd (get_hil_reservation_times cfg env pd jd s)) = calls s"
proof -
  have "\<And>es t. calls (snd (reservation_end cfg pd jd es t s)) = calls s"
    by (rule reservation_end_calls)
  then show ?thesis
    by (auto simp add: get_hil_reservation_times_def split: sum.splits prod.splits)
       (metis snd_conv)+
qed

lemma get_hil_reservation_times_fst:
  "fst (get_hil_reservation_times cfg env pd jd s)
     = fst (get_hil_reservation_times cfg env pd jd s')"
proof -
  have "\<And>es t. fst (reservation_end cfg pd jd es t s) = fst (reservation_end cfg pd jd es t s')"
    by (rule reservation_end_fst)
  then show ?thesis
    by (auto simp add: get_hil_reservation_times_def split: sum.splits prod.splits)
       (metis fst_conv sum.inject sum.distinct)+
qed

lemma strptime_ex_start:
  "strptime ''2017-05-01T10:00:00'' (SHOW_OBJ_TIME_FMT cfg_ex) = Inr 63629229600"
  by code_simp

lemma strftime_ex_start:
  "strftime 63629229600 (RES_CREATE_TIME_FMT cfg_ex) = Inr ''2017-05-01T10:00:00''"
  by code_simp

lemma job_ex_fields:
  "job_ex e l ''StartTime'' = Some ''2017-05-01T10:00:00''"
  "job_ex e l ''EndTime'' = Some e"
  "job_ex e l ''TimeLimit'' = Some l"
  by (simp_all add: job_ex_def)

lemma part_ex_max_time: "part_ex st sh m ''MaxTime'' = Some m"
  by (simp add: part_ex_def)

lemma times_to_reservation_end:
  assumes "jobdata_dict ''StartTime'' = Some t_job_start_s"
    and "strptime t_job_start_s (SHOW_OBJ_TIME_FMT cfg) = Inr t_start_dt"
    and "jobdata_dict ''EndTime'' = Some t_job_end_s"
  shows "fst (get_hil_reservation_times cfg env pdata_dict jobdata_dict s)
     = (case fst (reservation_end cfg pdata_dict jobdata_dict t_job_end_s t_start_dt s) of
          Inl e \<Rightarrow> Inl e
        | Inr t_end_opt \<Rightarrow> format_times cfg t_start_dt t_end_opt)"
  using assms
  by (simp add: get_hil_reservation_times_def getitem_def split: prod.splits sum.splits)

text \<open>
  Claim C9. For a job whose end time is unknown and whose time limit is finite, the
  branch only writes a debug line: \<^verbatim>\<open>t_end_dt\<close> stays unassigned, and nothing is
  computed from the time limit. The calculator therefore returns no window at all:
  every run ends in an exception, and when the start time can be read and printed it
  is the \<open>UnboundLocalError\<close> of line 190.
\<close>

theorem finite_time_limit_no_end:
  assumes "jobdata_dict ''EndTime'' = Some t_job_end_s"
    and "contains t_job_end_s ''Unknown''"
    and "jobdata_dict ''TimeLimit'' = Some time_limit"
    and "\<not> contains time_limit ''UNLIMITED''"
  shows "reservation_end cfg pdata_dict jobdata_dict t_job_end_s t_start_dt s
           = (Inr None, log_debug ''Job has a time limit! Unsupported!'' s)
       \<and> (\<exists>e. fst (get_hil_reservation_times cfg env pdata_dict jobdata_dict s) = Inl e)
       \<and> (\<forall>t_job_start_s t t_start_s.
             jobdata_dict ''StartTime'' = Some t_job_start_s
             \<and> strptime t_job_start_s (SHOW_OBJ_TIME_FMT cfg) = Inr t
             \<and> strftime t (RES_CREATE_TIME_FMT cfg) = Inr t_start_s
             \<longrightarrow> get_hil_reservation_times cfg env pdata_dict jobdata_dict s
                   = (Inl UnboundLocalError,
                      log_debug ''Job has a time limit! Unsupported!'' s))"
proof -
  have r: "\<And>t. reservation_end cfg pdata_dict jobdata_dict t_job_end_s t s
           = (Inr None, log_debug ''Job has a time limit! Unsupported!'' s)"
    using assms by (simp add: reservation_end_def getitem_def)
  have f: "\<And>t. \<exists>e. format_times cfg t None = Inl e"
    by (simp add: format_times_def split: sum.splits)
  have a: "\<exists>e. fst (get_hil_reservation_times cfg env pdata_dict jobdata_dict s) = Inl e"
    using assms(1) f
    by (auto simp add: get_hil_reservation_times_def getitem_def r
          split: sum.splits option.splits)
  have b: "get_hil_reservation_times cfg env pdata_dict jobdata_dict s
                   = (Inl UnboundLocalError,
                      log_debug ''Job has a time limit! Unsupported!'' s)"
    if "jobdata_dict ''StartTime'' = Some t_job_start_s"
      and "strptime t_job_start_s (SHOW_OBJ_TIME_FMT cfg) = Inr t"
      and "strftime t (RES_CREATE_TIME_FMT cfg) = Inr t_start_s"
    for t_job_start_s t t_start_s
    using that assms(1)
    by (simp add: get_hil_reservation_times_def getitem_def r format_times_def)
  from r a b show ?thesis by blast
qed


theorem finite_time_limit_no_end_witness:
  "get_hil_reservation_times cfg_ex (env_ex ''hil_reserve'') (part_ex ''UP'' ''NO'' ''UNLIMITED'')
     (job_ex ''Unknown'' ''01:00:00'') st_ex
   = (Inl UnboundLocalError, log_debug ''Job has a time limit! Unsupported!'' st_ex)"
proof -
  have 1: "contains ''Unknown'' ''Unknown''" by code_simp
  have 2: "\<not> contains ''01:00:00'' ''UNLIMITED''" by code_simp
  show ?thesis
    using finite_time_limit_no_end
            [where jobdata_dict = "job_ex ''Unknown'' ''01:00:00''" and cfg = cfg_ex
               and env = "env_ex ''hil_reserve''"
               and pdata_dict = "part_ex ''UP'' ''NO'' ''UNLIMITED''" and s = st_ex,
             OF job_ex_fields(2) 1 job_ex_fields(3) 2]
      job_ex_fields(1) strptime_ex_start strftime_ex_start
    by blast
qed

text \<open>
  Claim C4. For a job with no end time and no time limit, a partition maximum time
  of the form \<^verbatim>\<open>[days-]H:M:S\<close> should give the end time start plus that duration.
  The code gives no end time in either form. With a days field it raises
  \<open>AttributeError\<close> at line 170; without one it parses the time and computes the
  duration, never assigns \<^verbatim>\<open>t_end_dt\<close> (the assignment of line 178 stands in the
  other branch), and raises \<open>UnboundLocalError\<close> at line 190.
\<close>

theorem partition_max_time_raises:
  assumes "jobdata_dict ''StartTime'' = Some t_job_start_s"
    and "strptime t_job_start_s (SHOW_OBJ_TIME_FMT cfg) = Inr t_start_dt"
    and "jobdata_dict ''EndTime'' = Some t_job_end_s"
    and "contains t_job_end_s ''Unknown''"
    and "jobdata_dict ''TimeLimit'' = Some time_limit"
    and "contains time_limit ''UNLIMITED''"
    and "pdata_dict ''MaxTime'' = Some p_max_time_s"
    and "\<not> contains p_max_time_s ''UNLIMITED''"
  shows "(length (split_chr CHR ''-'' p_max_time_s) = 2 \<longrightarrow>
            fst (get_hil_reservation_times cfg env pdata_dict jobdata_dict s)
              = Inl AttributeError)
       \<and> (length (split_chr CHR ''-'' p_max_time_s) = 1
            \<and> strptime (split_chr CHR ''-'' p_max_time_s ! 0)
                  (SHOW_PARTITION_MAXTIME_HMS_FMT cfg) = Inr p_max_hms_dt
            \<and> strftime t_start_dt (RES_CREATE_TIME_FMT cfg) = Inr t_start_s \<longrightarrow>
            fst (get_hil_reservation_times cfg env pdata_dict jobdata_dict s)
              = Inl UnboundLocalError)"
proof -
  have r: "reservation_end cfg pdata_dict jobdata_dict t_job_end_s t_start_dt s
      = partition_max_end cfg p_max_time_s t_start_dt
          (log_debug (''Partition MaxTime is '' @ p_max_time_s) s)"
    using assms(4-8) by (simp add: reservation_end_def getitem_def)
  show ?thesis
    by (simp add: times_to_reservation_end [OF assms(1-3)] r partition_max_end_def
          format_times_def)
qed

theorem partition_max_time_raises_witness:
  "fst (get_hil_reservation_times cfg_ex (env_ex ''hil_reserve'')
          (part_ex ''UP'' ''NO'' ''2-01:30:00'') (job_ex ''Unknown'' ''UNLIMITED'') st_ex)
     = Inl AttributeError
   \<and> fst (get_hil_reservation_times cfg_ex (env_ex ''hil_reserve'')
          (part_ex ''UP'' ''NO'' ''01:30:00'') (job_ex ''Unknown'' ''UNLIMITED'') st_ex)
     = Inl UnboundLocalError"
proof -
  have 1: "contains ''Unknown'' ''Unknown''" by code_simp
  have 2: "contains ''UNLIMITED'' ''UNLIMITED''" by code_simp
  have 3: "\<not> contains ''2-01:30:00'' ''UNLIMITED''" by code_simp
  have 4: "\<not> contains ''01:30:00'' ''UNLIMITED''" by code_simp
  have 5: "length (split_chr CHR ''-'' ''2-01:30:00'') = 2" by code_simp
  have 6: "length (split_chr CHR ''-'' ''01:30:00'') = 1" by code_simp
  have 7: "strptime (split_chr CHR ''-'' ''01:30:00'' ! 0)
             (SHOW_PARTITION_MAXTIME_HMS_FMT cfg_ex) = Inr 59926613400"
    by code_simp
  show ?thesis
    using partition_max_time_raises
            [where jobdata_dict = "job_ex ''Unknown'' ''UNLIMITED''" and cfg = cfg_ex
               and env = "env_ex ''hil_reserve''" and s = st_ex
               and pdata_dict = "part_ex ''UP'' ''NO'' ''2-01:30:00''",
             OF job_ex_fields(1) strptime_ex_start job_ex_fields(2) 1 job_ex_fields(3) 2
                part_ex_max_time 3]
          partition_max_time_raises
            [where jobdata_dict = "job_ex ''Unknown'' ''UNLIMITED''" and cfg = cfg_ex
               and env = "env_ex ''hil_reserve''" and s = st_ex
               and pdata_dict = "part_ex ''UP'' ''NO'' ''01:30:00''"
               and p_max_hms_dt = 59926613400 and t_start_s = "''2017-05-01T10:00:00''",
             OF job_ex_fields(1) strptime_ex_start job_ex_fields(2) 1 job_ex_fields(3) 2
                part_ex_max_time 4]
          5 6 7 strftime_ex_start
    by blast
qed


lemma times_job_end:
  assumes "jobdata_dict ''StartTime'' = Some t_job_start_s"
    and "strptime t_job_start_s (SHOW_OBJ_TIME_FMT cfg) = Inr t_start_dt"
    and "strftime t_start_dt (RES_CREATE_TIME_FMT cfg) = Inr t_start_s"
    and "jobdata_dict ''EndTime'' = Some t_job_end_s"
    and "\<not> contains t_job_end_s ''Unknown''"
    and "strptime t_job_end_s (SHOW_OBJ_TIME_FMT cfg) = Inr t_end_dt"
    and "0 \<le> t_end_dt + HIL_RESERVATION_GRACE_PERIOD cfg"
    and "t_end_dt + HIL_RESERVATION_GRACE_PERIOD cfg < dt_max"
    and "strftime (t_end_dt + HIL_RESERVATION_GRACE_PERIOD cfg) (RES_CREATE_TIME_FMT cfg)
           = Inr t_end_s"
  shows "fst (get_hil_reservation_times cfg env pdata_dict jobdata_dict s)
           = Inr (t_start_s, t_end_s)"
proof -
  have "fst (reservation_end cfg pdata_dict jobdata_dict t_job_end_s t_start_dt s)
          = Inr (Some (t_end_dt + HIL_RESERVATION_GRACE_PERIOD cfg))"
    using assms(5-8) by (simp add: reservation_end_def dt_add_def)
  then show ?thesis
    using assms(3,9)
    by (simp add: times_to_reservation_end [OF assms(1,2,4)] format_times_def)
qed

lemma times_default_duration:
  assumes "jobdata_dict ''StartTime'' = Some t_job_start_s"
    and "strptime t_job_start_s (SHOW_OBJ_TIME_FMT cfg) = Inr t_start_dt"
    and "strftime t_start_dt (RES_CREATE_TIME_FMT cfg) = Inr t_start_s"
    and "jobdata_dict ''EndTime'' = Some t_job_end_s"
    and "contains t_job_end_s ''Unknown''"
    and "jobdata_dict ''TimeLimit'' = Some time_limit"
    and "contains time_limit ''UNLIMITED''"
    and "pdata_dict ''MaxTime'' = Some p_max_time_s"
    and "contains p_max_time_s ''UNLIMITED''"
    and "0 \<le> t_start_dt + HIL_RESERVATION_DEFAULT_DURATION cfg"
    and "t_start_dt + HIL_RESERVATION_DEFAULT_DURATION cfg < dt_max"
    and "strftime (t_start_dt + HIL_RESERVATION_DEFAULT_DURATION cfg) (RES_CREATE_TIME_FMT cfg)
           = Inr t_end_s"
  shows "fst (get_hil_reservation_times cfg env pdata_dict jobdata_dict s)
           = Inr (t_start_s, t_end_s)"
proof -
  have "fst (reservation_end cfg pdata_dict jobdata_dict t_job_end_s t_start_dt s)
          = Inr (Some (t_start_dt + HIL_RESERVATION_DEFAULT_DURATION cfg))"
    using assms(5-11) by (simp add: reservation_end_def dt_add_def getitem_def)
  then show ?thesis
    using assms(3,12)
    by (simp add: times_to_reservation_end [OF assms(1,2,4)] format_times_def)
qed

lemma strptime_ex_end:
  "strptime ''2017-05-01T12:00:00'' (SHOW_OBJ_TIME_FMT cfg_ex) = Inr 63629236800"
  by code_simp

lemma strftime_ex_grace:
  "strftime (63629236800 + HIL_RESERVATION_GRACE_PERIOD cfg_ex) (RES_CREATE_TIME_FMT cfg_ex)
     = Inr ''2017-05-01T12:10:00''"
  by code_simp

lemma strftime_ex_default:
  "strftime (63629229600 + HIL_RESERVATION_DEFAULT_DURATION cfg_ex) (RES_CREATE_TIME_FMT cfg_ex)
     = Inr ''2017-05-01T11:00:00''"
  by code_simp

lemma in_range_ex:
  "0 \<le> 63629236800 + HIL_RESERVATION_GRACE_PERIOD cfg_ex"
  "63629236800 + HIL_RESERVATION_GRACE_PERIOD cfg_ex < dt_max"
  "0 \<le> 63629229600 + HIL_RESERVATION_DEFAULT_DURATION cfg_ex"
  "63629229600 + HIL_RESERVATION_DEFAULT_DURATION cfg_ex < dt_max"
  by (simp_all add: cfg_ex_def dt_max_def)

lemma contains_ex:
  "contains ''Unknown'' ''Unknown''"
  "contains ''UNLIMITED'' ''UNLIMITED''"
  "\<not> contains ''2017-05-01T12:00:00'' ''Unknown''"
  by code_simp+

text \<open>
  Claim C5. When the end time of the job is defined, the end of the reservation is
  that time plus the grace period, whatever the time limit of the job and the maximum
  time of the partition are (neither is read). When the end time is unknown, the time
  limit is unlimited and the maximum time of the partition is \<^verbatim>\<open>UNLIMITED\<close>, the
  end is the start plus the default duration. Both hold when the times can be read
  and printed and the sum is a date the library can represent.
\<close>

theorem reservation_end_job_end_or_default:
  assumes "jobdata_dict ''StartTime'' = Some t_job_start_s"
    and "strptime t_job_start_s (SHOW_OBJ_TIME_FMT cfg) = Inr t_start_dt"
    and "strftime t_start_dt (RES_CREATE_TIME_FMT cfg) = Inr t_start_s"
    and "jobdata_dict ''EndTime'' = Some t_job_end_s"
  shows "(\<not> contains t_job_end_s ''Unknown''
          \<and> strptime t_job_end_s (SHOW_OBJ_TIME_FMT cfg) = Inr t_end_dt
          \<and> 0 \<le> t_end_dt + HIL_RESERVATION_GRACE_PERIOD cfg
          \<and> t_end_dt + HIL_RESERVATION_GRACE_PERIOD cfg < dt_max
          \<and> strftime (t_end_dt + HIL_RESERVATION_GRACE_PERIOD cfg) (RES_CREATE_TIME_FMT cfg)
               = Inr t_end_s
          \<longrightarrow> fst (get_hil_reservation_times cfg env pdata_dict jobdata_dict s)
                = Inr (t_start_s, t_end_s))
       \<and> (contains t_job_end_s ''Unknown''
          \<and> jobdata_dict ''TimeLimit'' = Some time_limit
          \<and> contains time_limit ''UNLIMITED''
          \<and> pdata_dict ''MaxTime'' = Some p_max_time_s
          \<and> contains p_max_time_s ''UNLIMITED''
          \<and> 0 \<le> t_start_dt + HIL_RESERVATION_DEFAULT_DURATION cfg
          \<and> t_start_dt + HIL_RESERVATION_DEFAULT_DURATION cfg < dt_max
          \<and> strftime (t_start_dt + HIL_RESERVATION_DEFAULT_DURATION cfg)
                (RES_CREATE_TIME_FMT cfg) = Inr t_end_s'
          \<longrightarrow> fst (get_hil_reservation_times cfg env pdata_dict jobdata_dict s)
                = Inr (t_start_s, t_end_s'))"
  using times_job_end [OF assms] times_default_duration [OF assms]
  by blast

theorem reservation_end_job_end_or_default_witness:
  "fst (get_hil_reservation_times cfg_ex (env_ex ''hil_reserve'')
          (part_ex ''UP'' ''NO'' ''2-01:30:00'') (job_ex ''2017-05-01T12:00:00'' ''02:00:00'') st_ex)
     = Inr (''2017-05-01T10:00:00'', ''2017-05-01T12:10:00'')
   \<and> fst (get_hil_reservation_times cfg_ex (env_ex ''hil_reserve'')
          (part_ex ''UP'' ''NO'' ''UNLIMITED'') (job_ex ''Unknown'' ''UNLIMITED'') st_ex)
     = Inr (''2017-05-01T10:00:00'', ''2017-05-01T11:00:00'')"
  using reservation_end_job_end_or_default
          [where jobdata_dict = "job_ex ''2017-05-01T12:00:00'' ''02:00:00''" and cfg = cfg_ex
             and env = "env_ex ''hil_reserve''" and s = st_ex
             and pdata_dict = "part_ex ''UP'' ''NO'' ''2-01:30:00''"
             and t_end_dt = 63629236800 and t_end_s = "''2017-05-01T12:10:00''",
           OF job_ex_fields(1) strptime_ex_start strftime_ex_start job_ex_fields(2)]
        reservation_end_job_end_or_default
          [where jobdata_dict = "job_ex ''Unknown'' ''UNLIMITED''" and cfg = cfg_ex
             and env = "env_ex ''hil_reserve''" and s = st_ex
             and pdata_dict = "part_ex ''UP'' ''NO'' ''UNLIMITED''"
             and time_limit = "''UNLIMITED''" and p_max_time_s = "''UNLIMITED''"
             and t_end_s' = "''2017-05-01T11:00:00''",
           OF job_ex_fields(1) strptime_ex_start strftime_ex_start job_ex_fields(2)]
        strptime_ex_end strftime_ex_grace strftime_ex_default in_range_ex contains_ex
        job_ex_fields(3) part_ex_max_time
  by blast


subsection \<open>Creating the reservations\<close>

lemma create_hil_reservation_present:
  assumes "fst (get_hil_reservation_times cfg env pdata_dict jobdata_dict s) = Inr (t_start_s, t_end_s)"
    and "get_hil_reservation_name cfg name_token env t_start_s = Inr resname"
    and "snd (mgr (calls s) (ShowReservation resname)) = err"
    and "err \<noteq> []" and "\<not> contains err ''not found''"
  shows "fst (create_hil_reservation cfg mgr name_token env pdata_dict jobdata_dict s)
           = Inr (resname, err)
       \<and> calls (snd (create_hil_reservation cfg mgr name_token env pdata_dict jobdata_dict s))
           = calls s @ [ShowReservation resname]
       \<and> (INFO, msg_exists resname)
           \<in> set (logged (snd (create_hil_reservation cfg mgr name_token env pdata_dict
                                  jobdata_dict s)))"
proof -
  obtain s1 where g: "get_hil_reservation_times cfg env pdata_dict jobdata_dict s
      = (Inr (t_start_s, t_end_s), s1)"
    using assms(1) by (metis prod.collapse)
  have c: "calls s1 = calls s"
    using get_hil_reservation_times_calls [of cfg env pdata_dict jobdata_dict s] g by simp
  obtain out where m: "mgr (calls s) (ShowReservation resname) = (out, err)"
    using assms(3) by (metis prod.collapse)
  show ?thesis
    unfolding create_hil_reservation_def g
    using assms(2,4,5) c m
    by (simp add: exec_scontrol_def log_info_calls log_info_logged)
qed

lemma create_hil_reservation_absent:
  assumes "fst (get_hil_reservation_times cfg env pdata_dict jobdata_dict s) = Inr (t_start_s, t_end_s)"
    and "get_hil_reservation_name cfg name_token env t_start_s = Inr resname"
    and "snd (mgr (calls s) (ShowReservation resname)) = err"
    and "err = [] \<or> contains err ''not found''"
  shows "fst (create_hil_reservation cfg mgr name_token env pdata_dict jobdata_dict s)
           = Inr (resname,
                  snd (mgr (calls s @ [ShowReservation resname])
                         (CreateReservation resname (username env) t_start_s t_end_s
                            (RES_CREATE_FLAGS cfg) (RES_CREATE_HIL_FEATURES cfg))))
       \<and> calls (snd (create_hil_reservation cfg mgr name_token env pdata_dict jobdata_dict s))
           = calls s @ [ShowReservation resname,
                        CreateReservation resname (username env) t_start_s t_end_s
                          (RES_CREATE_FLAGS cfg) (RES_CREATE_HIL_FEATURES cfg)]"
proof -
  obtain s1 where g: "get_hil_reservation_times cfg env pdata_dict jobdata_dict s
      = (Inr (t_start_s, t_end_s), s1)"
    using assms(1) by (metis prod.collapse)
  have c: "calls s1 = calls s"
    using get_hil_reservation_times_calls [of cfg env pdata_dict jobdata_dict s] g by simp
  obtain out where m: "mgr (calls s) (ShowReservation resname) = (out, err)"
    using assms(3) by (metis prod.collapse)
  have n: "\<not> (err \<noteq> [] \<and> \<not> contains err ''not found'')"
    using assms(4) by blast
  show ?thesis
    unfolding create_hil_reservation_def g
    using assms(2) c m n
    by (simp add: exec_scontrol_def log_info_calls Let_def split: prod.splits)
qed

lemma times_ex:
  "fst (get_hil_reservation_times cfg_ex (env_ex j) (part_ex st sh ''UNLIMITED'')
          (job_ex ''Unknown'' ''UNLIMITED'') s)
     = Inr (''2017-05-01T10:00:00'', ''2017-05-01T11:00:00'')"
  by (rule times_default_duration
             [where jobdata_dict = "job_ex ''Unknown'' ''UNLIMITED''"
                and pdata_dict = "part_ex st sh ''UNLIMITED''",
              OF job_ex_fields(1) strptime_ex_start strftime_ex_start job_ex_fields(2)
                 contains_ex(1) job_ex_fields(3) contains_ex(2) part_ex_max_time
                 contains_ex(2) in_range_ex(3) in_range_ex(4) strftime_ex_default])

lemma name_ex:
  "get_hil_reservation_name cfg_ex (HIL_RESERVE cfg_ex) (env_ex j) ''2017-05-01T10:00:00''
     = Inr ''flexalloc_MOC_reserve_alice_1000_2017-05-01T10:00:00''"
  "get_hil_reservation_name cfg_ex (HIL_RELEASE cfg_ex) (env_ex j) ''2017-05-01T10:00:00''
     = Inr ''flexalloc_MOC_release_alice_1000_2017-05-01T10:00:00''"
  by (simp_all add: get_hil_reservation_name_def cfg_ex_def env_ex_def)

lemma mgr_ex_show: "snd (mgr_ex h (ShowReservation n)) = ''Reservation '' @ n @ '' not found''"
  by (simp add: mgr_ex_def)

lemma mgr_ex_not_found: "contains (''Reservation '' @ n @ '' not found'') ''not found''"
proof -
  have "''Reservation '' @ n @ '' not found'' = (''Reservation '' @ n @ '' '') @ ''not found'' @ []"
    by simp
  then show ?thesis unfolding contains_iff by blast
qed

lemma mgr_down_ex_show:
  "snd (mgr_down_ex h c) = ''slurm_load_reservations error: Unable to contact slurm controller''"
  by (simp add: mgr_down_ex_def)

lemma mgr_down_ex_error:
  "''slurm_load_reservations error: Unable to contact slurm controller'' \<noteq> []"
  "\<not> contains ''slurm_load_reservations error: Unable to contact slurm controller'' ''not found''"
  by code_simp+

lemma cfg_ex_create: "RES_CREATE_FLAGS cfg_ex = ''MAINT,IGNORE_JOBS''"
  "RES_CREATE_HIL_FEATURES cfg_ex = ''HIL''"
  by (simp_all add: cfg_ex_def)

lemma env_ex_username: "username (env_ex j) = Some ''alice''"
  by (simp add: env_ex_def)

text \<open>
  Claim C7. Once the window and the name are computed, the first command sent to the
  manager is the lookup of that name. The reservation counts as present exactly when
  the error text of the lookup is not empty and does not contain \<^verbatim>\<open>not found\<close>:
  then nothing else is sent, the name is returned with that text, and the log says
  that the reservation already exists. Otherwise the creation follows the lookup.
\<close>

theorem create_hil_reservation_queries_first:
  assumes "fst (get_hil_reservation_times cfg env pdata_dict jobdata_dict s) = Inr (t_start_s, t_end_s)"
    and "get_hil_reservation_name cfg name_token env t_start_s = Inr resname"
    and "snd (mgr (calls s) (ShowReservation resname)) = err"
  shows "(err \<noteq> [] \<and> \<not> contains err ''not found'' \<longrightarrow>
            fst (create_hil_reservation cfg mgr name_token env pdata_dict jobdata_dict s)
              = Inr (resname, err)
          \<and> calls (snd (create_hil_reservation cfg mgr name_token env pdata_dict jobdata_dict s))
              = calls s @ [ShowReservation resname]
          \<and> (INFO, ''HIL reservation `'' @ resname @ ''` already exists'')
              \<in> set (logged (snd (create_hil_reservation cfg mgr name_token env pdata_dict
                                     jobdata_dict s))))
       \<and> (err = [] \<or> contains err ''not found'' \<longrightarrow>
            calls (snd (create_hil_reservation cfg mgr name_token env pdata_dict jobdata_dict s))
              = calls s @ [ShowReservation resname,
                           CreateReservation resname (username env) t_start_s t_end_s
                             (RES_CREATE_FLAGS cfg) (RES_CREATE_HIL_FEATURES cfg)])"
proof (intro conjI impI)
  assume a: "err \<noteq> [] \<and> \<not> contains err ''not found''"
  note p = create_hil_reservation_present
             [where mgr = mgr and err = err, OF assms(1) assms(2) assms(3),
              unfolded msg_exists_def]
  from a p show "fst (create_hil_reservation cfg mgr name_token env pdata_dict jobdata_dict s)
              = Inr (resname, err)" by blast
  from a p show "calls (snd (create_hil_reservation cfg mgr name_token env pdata_dict jobdata_dict s))
              = calls s @ [ShowReservation resname]" by blast
  from a p show "(INFO, ''HIL reservation `'' @ resname @ ''` already exists'')
              \<in> set (logged (snd (create_hil_reservation cfg mgr name_token env pdata_dict
                                     jobdata_dict s)))" by blast
next
  assume a: "err = [] \<or> contains err ''not found''"
  from create_hil_reservation_absent
         [where mgr = mgr and err = err, OF assms(1) assms(2) assms(3) a]
  show "calls (snd (create_hil_reservation cfg mgr name_token env pdata_dict jobdata_dict s))
              = calls s @ [ShowReservation resname,
                           CreateReservation resname (username env) t_start_s t_end_s
                             (RES_CREATE_FLAGS cfg) (RES_CREATE_HIL_FEATURES cfg)]"
    by blast
qed


theorem create_hil_reservation_queries_first_witness:
  "fst (create_hil_reservation cfg_ex mgr_down_ex (HIL_RESERVE cfg_ex) (env_ex ''hil_reserve'')
          (part_ex ''UP'' ''NO'' ''UNLIMITED'') (job_ex ''Unknown'' ''UNLIMITED'') st_ex)
     = Inr (''flexalloc_MOC_reserve_alice_1000_2017-05-01T10:00:00'',
            ''slurm_load_reservations error: Unable to contact slurm controller'')
   \<and> calls (snd (create_hil_reservation cfg_ex mgr_down_ex (HIL_RESERVE cfg_ex)
          (env_ex ''hil_reserve'') (part_ex ''UP'' ''NO'' ''UNLIMITED'')
          (job_ex ''Unknown'' ''UNLIMITED'') st_ex))
     = [ShowReservation ''flexalloc_MOC_reserve_alice_1000_2017-05-01T10:00:00'']
   \<and> calls (snd (create_hil_reservation cfg_ex mgr_ex (HIL_RESERVE cfg_ex)
          (env_ex ''hil_reserve'') (part_ex ''UP'' ''NO'' ''UNLIMITED'')
          (job_ex ''Unknown'' ''UNLIMITED'') st_ex))
     = [ShowReservation ''flexalloc_MOC_reserve_alice_1000_2017-05-01T10:00:00'',
        CreateReservation ''flexalloc_MOC_reserve_alice_1000_2017-05-01T10:00:00''
          (Some ''alice'') ''2017-05-01T10:00:00'' ''2017-05-01T11:00:00''
          ''MAINT,IGNORE_JOBS'' ''HIL'']"
proof -
  note a = create_hil_reservation_queries_first
             [where mgr = mgr_down_ex and s = st_ex, OF times_ex name_ex(1) mgr_down_ex_show]
  note b = create_hil_reservation_queries_first
             [where mgr = mgr_ex and s = st_ex, OF times_ex name_ex(1) mgr_ex_show]
  have c: "calls st_ex = []" by (simp add: st_ex_def)
  from a b mgr_down_ex_error mgr_ex_not_found show ?thesis
    unfolding c cfg_ex_create env_ex_username append_Nil
    by blast
qed

text \<open>
  Claim C10. The release reservation should start at or after the end of the reserve
  reservation; the code itself expects that, since on release its start is to be
  advanced to the current time (lines 227 to 228 and 296). The reserve command does
  not do it: when it creates both reservations, the creation of the release
  reservation carries the start time and the end time of the creation of the reserve
  reservation, both computed from the same job, with the same flags. The release
  reservation starts with the reserve reservation, not after its end.
\<close>

theorem hil_reserve_cmd_same_window:
  assumes "fst (get_hil_reservation_times cfg env pdata_dict jobdata_dict s) = Inr (t_start_s, t_end_s)"
    and "get_hil_reservation_name cfg (HIL_RESERVE cfg) env t_start_s = Inr n1"
    and "get_hil_reservation_name cfg (HIL_RELEASE cfg) env t_start_s = Inr n2"
    and "snd (mgr (calls s) (ShowReservation n1)) = err1"
    and "err1 = [] \<or> contains err1 ''not found''"
    and "snd (mgr (calls s @ [ShowReservation n1,
                 CreateReservation n1 (username env) t_start_s t_end_s
                   (RES_CREATE_FLAGS cfg) (RES_CREATE_HIL_FEATURES cfg)])
               (ShowReservation n2)) = err2"
    and "err2 = [] \<or> contains err2 ''not found''"
  shows "fst (hil_reserve_cmd cfg mgr env pdata_dict jobdata_dict s) = Inr ()
       \<and> calls (snd (hil_reserve_cmd cfg mgr env pdata_dict jobdata_dict s))
           = calls s @ [ShowReservation n1,
                        CreateReservation n1 (username env) t_start_s t_end_s
                          (RES_CREATE_FLAGS cfg) (RES_CREATE_HIL_FEATURES cfg),
                        ShowReservation n2,
                        CreateReservation n2 (username env) t_start_s t_end_s
                          (RES_CREATE_FLAGS cfg) (RES_CREATE_HIL_FEATURES cfg)]"
proof -
  note first = create_hil_reservation_absent
                 [where mgr = mgr and err = err1, OF assms(1) assms(2) assms(4) assms(5)]
  obtain r1 s1 where c1: "create_hil_reservation cfg mgr (HIL_RESERVE cfg) env pdata_dict
                            jobdata_dict s = (Inr r1, s1)"
    using first by (metis prod.collapse)
  have k1: "calls s1 = calls s @ [ShowReservation n1,
                 CreateReservation n1 (username env) t_start_s t_end_s
                   (RES_CREATE_FLAGS cfg) (RES_CREATE_HIL_FEATURES cfg)]"
    using first c1 by simp
  have t1: "fst (get_hil_reservation_times cfg env pdata_dict jobdata_dict s1)
              = Inr (t_start_s, t_end_s)"
    using assms(1) get_hil_reservation_times_fst [of cfg env pdata_dict jobdata_dict s1 s]
    by simp
  have e2: "snd (mgr (calls s1) (ShowReservation n2)) = err2"
    using assms(6) k1 by simp
  note second = create_hil_reservation_absent
                  [where mgr = mgr and err = err2, OF t1 assms(3) e2 assms(7)]
  obtain r2 s2 where c2: "create_hil_reservation cfg mgr (HIL_RELEASE cfg) env pdata_dict
                            jobdata_dict s1 = (Inr r2, s2)"
    using second by (metis prod.collapse)
  have k2: "calls s2 = calls s1 @ [ShowReservation n2,
                 CreateReservation n2 (username env) t_start_s t_end_s
                   (RES_CREATE_FLAGS cfg) (RES_CREATE_HIL_FEATURES cfg)]"
    using second c2 by simp
  show ?thesis
    by (simp add: hil_reserve_cmd_def c1 c2 k1 k2)
qed


theorem hil_reserve_cmd_same_window_witness:
  "fst (hil_reserve_cmd cfg_ex mgr_ex (env_ex ''hil_reserve'')
          (part_ex ''UP'' ''NO'' ''UNLIMITED'') (job_ex ''Unknown'' ''UNLIMITED'') st_ex) = Inr ()
   \<and> calls (snd (hil_reserve_cmd cfg_ex mgr_ex (env_ex ''hil_reserve'')
          (part_ex ''UP'' ''NO'' ''UNLIMITED'') (job_ex ''Unknown'' ''UNLIMITED'') st_ex))
     = [ShowReservation ''flexalloc_MOC_reserve_alice_1000_2017-05-01T10:00:00'',
        CreateReservation ''flexalloc_MOC_reserve_alice_1000_2017-05-01T10:00:00''
          (Some ''alice'') ''2017-05-01T10:00:00'' ''2017-05-01T11:00:00''
          ''MAINT,IGNORE_JOBS'' ''HIL'',
        ShowReservation ''flexalloc_MOC_release_alice_1000_2017-05-01T10:00:00'',
        CreateReservation ''flexalloc_MOC_release_alice_1000_2017-05-01T10:00:00''
          (Some ''alice'') ''2017-05-01T10:00:00'' ''2017-05-01T11:00:00''
          ''MAINT,IGNORE_JOBS'' ''HIL'']"
proof -
  have c: "calls st_ex = []" by (simp add: st_ex_def)
  from hil_reserve_cmd_same_window
         [where mgr = mgr_ex and s = st_ex,
          OF times_ex name_ex(1) name_ex(2) mgr_ex_show disjI2 [OF mgr_ex_not_found]
             mgr_ex_show disjI2 [OF mgr_ex_not_found]]
  show ?thesis
    unfolding c cfg_ex_create env_ex_username append_Nil .
qed

text \<open>
  For a job that starts at 10:00 with the default duration of one hour, both
  reservations run from 10:00 to 11:00: the release reservation starts before the
  reserve reservation ends.
\<close>

lemma hil_reserve_cmd_release_starts_early:
  "calls (snd (hil_reserve_cmd cfg_ex mgr_ex (env_ex ''hil_reserve'')
          (part_ex ''UP'' ''NO'' ''UNLIMITED'') (job_ex ''Unknown'' ''UNLIMITED'') st_ex))
     = [ShowReservation ''flexalloc_MOC_reserve_alice_1000_2017-05-01T10:00:00'',
        CreateReservation ''flexalloc_MOC_reserve_alice_1000_2017-05-01T10:00:00''
          (Some ''alice'') ''2017-05-01T10:00:00'' ''2017-05-01T11:00:00''
          ''MAINT,IGNORE_JOBS'' ''HIL'',
        ShowReservation ''flexalloc_MOC_release_alice_1000_2017-05-01T10:00:00'',
        CreateReservation ''flexalloc_MOC_release_alice_1000_2017-05-01T10:00:00''
          (Some ''alice'') ''2017-05-01T10:00:00'' ''2017-05-01T11:00:00''
          ''MAINT,IGNORE_JOBS'' ''HIL'']
   \<and> strptime ''2017-05-01T10:00:00'' (RES_CREATE_TIME_FMT cfg_ex) = Inr 63629229600
   \<and> strptime ''2017-05-01T11:00:00'' (RES_CREATE_TIME_FMT cfg_ex) = Inr 63629233200
   \<and> \<not> (63629233200 \<le> (63629229600 :: datetime))"
  by code_simp


subsection \<open>The release command and the manager\<close>

text \<open>
  Whatever the job record holds, the release command sends no command to the
  manager: every path ends in an exception or in a log line.
\<close>

lemma hil_release_cmd_sends_nothing:
  "calls (snd (hil_release_cmd cfg mgr env pdata_dict jobdata_dict s)) = calls s"
  by (simp add: hil_release_cmd_def load_resname log_error_calls Let_def
        split: sum.splits option.splits)

end
